theory Spec2Isabelle
  imports Complex_Main
begin

section \<open>Data model (models.py)\<close>

text \<open>
  The five record tables and the user table of \<^verbatim>\<open>models.py\<close>. Every owned table has
  an integer primary key \<^verbatim>\<open>id\<close> and a foreign key \<^verbatim>\<open>user_id\<close>; these two columns form the
  base record \<open>row\<close>, which the five owned record types extend. The number type \<open>'n\<close> of
  the \<^verbatim>\<open>db.Float\<close> columns is a parameter of the tables. The totals and the grouping use
  only its \<open>0\<close>, \<open>+\<close> and \<open>-\<close> and are defined for every number type, among them the
  doubles of the program (section \<open>Doubles\<close>); the handlers whose rules compare with
  decimal constants are stated over exact real numbers. Dates are modelled by their
  proleptic ordinal.
\<close>

type_synonym date = int

record user =
  id :: nat
  username :: string
  email :: string
  password_hash :: string

record row =
  id :: nat
  user_id :: nat

record 'n expense = row +
  description :: string
  amount :: 'n
  category :: string
  date :: date

record 'n income = row +
  description :: string
  amount :: 'n
  category :: string
  date :: date

record 'n goal = row +
  name :: string
  target_amount :: 'n
  current_amount :: 'n
  target_date :: "date option"
  description :: string

record 'n investment = row +
  name :: string
  type :: string
  amount :: 'n
  purchase_date :: date
  current_value :: 'n
  notes_text :: string

record 'n budget = row +
  category :: string
  amount :: 'n

text \<open>The database: one list of rows per table, in storage order.\<close>

record 'n db =
  users :: "user list"
  expenses :: "'n expense list"
  incomes :: "'n income list"
  goals :: "'n goal list"
  investments :: "'n investment list"
  budgets :: "'n budget list"

subsection \<open>Queries\<close>

text \<open>\<^verbatim>\<open>Model.query.filter_by(user_id=user_id).all()\<close>\<close>

definition filter_by_user :: "nat \<Rightarrow> ('a row_scheme) list \<Rightarrow> ('a row_scheme) list" where
  "filter_by_user uid rows = filter (\<lambda>r. user_id r = uid) rows"

text \<open>\<^verbatim>\<open>Model.query.filter_by(id=i, user_id=user_id).first()\<close>\<close>

definition first_by_id_user :: "nat \<Rightarrow> nat \<Rightarrow> ('a row_scheme) list \<Rightarrow> ('a row_scheme) option" where
  "first_by_id_user i uid rows = List.find (\<lambda>r. row.id r = i \<and> user_id r = uid) rows"

text \<open>\<^verbatim>\<open>db.session.delete(obj)\<close>: \<^verbatim>\<open>DELETE FROM t WHERE id = obj.id\<close>\<close>

definition delete_row :: "nat \<Rightarrow> ('a row_scheme) list \<Rightarrow> ('a row_scheme) list" where
  "delete_row i rows = filter (\<lambda>r. row.id r \<noteq> i) rows"

text \<open>
  The primary key given to an inserted row: one more than the largest key of the table
  (1 on an empty table).
\<close>

definition next_id :: "('a row_scheme) list \<Rightarrow> nat" where
  "next_id rows = Suc (foldr max (map row.id rows) 0)"

definition next_user_id :: "user list \<Rightarrow> nat" where
  "next_user_id us = Suc (foldr max (map user.id us) 0)"

text \<open>
  Python's \<^verbatim>\<open>sum(...)\<close>: the running sum from 0, left to right, in the arithmetic of
  the number type. (CPython from version 3.12 on compensates the rounding errors of a sum
  of floats; the model follows the plain running sum of the earlier versions.)
\<close>

definition py_sum :: "('n::{zero,plus}) list \<Rightarrow> 'n" where
  "py_sum xs = foldl (+) 0 xs"

section \<open>Default categories\<close>

definition default_expense_categories :: "string list" where
  "default_expense_categories =
    [''Housing'', ''Transportation'', ''Food'', ''Utilities'', ''Insurance'',
     ''Healthcare'', ''Debt Payments'', ''Savings'', ''Personal'', ''Entertainment'',
     ''Education'', ''Clothing'', ''Gifts/Donations'', ''Miscellaneous'']"

definition default_income_categories :: "string list" where
  "default_income_categories =
    [''Salary'', ''Freelance'', ''Business'', ''Investments'', ''Rental'',
     ''Gifts'', ''Other'']"

section \<open>Grouping by category\<close>

text \<open>
  A Python dict keeps its keys in insertion order, so it is an association list with
  distinct keys. One round of the grouping loop
  \<^verbatim>\<open>if category not in d: d[category] = 0\<close> followed by \<^verbatim>\<open>d[category] += x\<close>:
  an existing key keeps its position, a new key is appended with value \<open>0 + x\<close>.
\<close>

fun add_to_category ::
  "(string \<times> ('n::{zero,plus})) list \<Rightarrow> string \<Rightarrow> 'n \<Rightarrow> (string \<times> 'n) list" where
  "add_to_category [] c x = [(c, 0 + x)]"
| "add_to_category ((k, v) # d) c x =
     (if k = c then (k, v + x) # d else (k, v) # add_to_category d c x)"

text \<open>The grouping loop over a list of (category, amount) pairs, from the empty dict.\<close>

definition group_by_category ::
  "(string \<times> ('n::{zero,plus})) list \<Rightarrow> (string \<times> 'n) list" where
  "group_by_category kvs = foldl (\<lambda>d (c, x). add_to_category d c x) [] kvs"

section \<open>The dashboard and the summary\<close>

text \<open>\<^verbatim>\<open>sorted(rows, key=lambda x: x.date, reverse=True)[:5]\<close>: a stable descending sort.\<close>

definition latest :: "('a \<Rightarrow> date) \<Rightarrow> 'a list \<Rightarrow> 'a list" where
  "latest key rows = take 5 (rev (sort_key key (rev rows)))"

record 'n index_page =
  username :: string
  total_expenses :: 'n
  total_income :: 'n
  net_worth :: 'n
  expenses :: "'n expense list"
  incomes :: "'n income list"
  goals :: "'n goal list"
  investments :: "'n investment list"

definition index :: "('n::{zero,plus,minus}) db \<Rightarrow> user \<Rightarrow> 'n index_page" where
  "index d current_user =
    (let user_expenses = filter_by_user (user.id current_user) (db.expenses d);
         user_incomes = filter_by_user (user.id current_user) (db.incomes d);
         user_goals = filter_by_user (user.id current_user) (db.goals d);
         user_investments = filter_by_user (user.id current_user) (db.investments d);
         total_expenses = py_sum (map expense.amount user_expenses);
         total_income = py_sum (map income.amount user_incomes);
         net_worth = total_income - total_expenses
     in \<lparr>index_page.username = user.username current_user,
         index_page.total_expenses = total_expenses,
         index_page.total_income = total_income,
         index_page.net_worth = net_worth,
         index_page.expenses = latest expense.date user_expenses,
         index_page.incomes = latest income.date user_incomes,
         index_page.goals = user_goals,
         index_page.investments = user_investments\<rparr>)"

record 'n summary =
  total_expenses :: 'n
  total_income :: 'n
  total_investments :: 'n
  net_worth :: 'n
  expense_by_category :: "(string \<times> 'n) list"
  income_by_category :: "(string \<times> 'n) list"
  investments_by_type :: "(string \<times> 'n) list"

definition get_financial_summary :: "('n::{zero,plus,minus}) db \<Rightarrow> user \<Rightarrow> 'n summary" where
  "get_financial_summary d current_user =
    (let user_expenses = filter_by_user (user.id current_user) (db.expenses d);
         user_incomes = filter_by_user (user.id current_user) (db.incomes d);
         user_investments = filter_by_user (user.id current_user) (db.investments d);
         total_expenses = py_sum (map expense.amount user_expenses);
         total_income = py_sum (map income.amount user_incomes);
         total_investments = py_sum (map investment.current_value user_investments);
         net_worth = total_income - total_expenses + total_investments
     in \<lparr>summary.total_expenses = total_expenses,
         summary.total_income = total_income,
         summary.total_investments = total_investments,
         summary.net_worth = net_worth,
         expense_by_category =
           group_by_category (map (\<lambda>e. (expense.category e, expense.amount e)) user_expenses),
         income_by_category =
           group_by_category (map (\<lambda>i. (income.category i, income.amount i)) user_incomes),
         investments_by_type =
           group_by_category
             (map (\<lambda>i. (investment.type i, investment.current_value i)) user_investments)\<rparr>)"

section \<open>Errors, dicts and formatted text\<close>

datatype py_error = ZeroDivisionError

text \<open>Python's \<^verbatim>\<open>a / b\<close> on floats raises \<^verbatim>\<open>ZeroDivisionError\<close> when \<open>b\<close> is zero.\<close>

definition py_div :: "real \<Rightarrow> real \<Rightarrow> py_error + real" where
  "py_div a b = (if b = 0 then Inl ZeroDivisionError else Inr (a / b))"

text \<open>Sequencing of computations that may raise.\<close>

definition and_then :: "py_error + 'a \<Rightarrow> ('a \<Rightarrow> py_error + 'b) \<Rightarrow> py_error + 'b" where
  "and_then r f = (case r of Inl e \<Rightarrow> Inl e | Inr x \<Rightarrow> f x)"

text \<open>\<^verbatim>\<open>d[k] = v\<close> on an insertion-ordered dict.\<close>

fun dict_set :: "('k \<times> 'v) list \<Rightarrow> 'k \<Rightarrow> 'v \<Rightarrow> ('k \<times> 'v) list" where
  "dict_set [] k v = [(k, v)]"
| "dict_set ((k', v') # d) k v =
     (if k' = k then (k', v) # d else (k', v') # dict_set d k v)"

text \<open>\<^verbatim>\<open>d.get(k, default)\<close>\<close>

definition dict_get :: "('k \<times> 'v) list \<Rightarrow> 'k \<Rightarrow> 'v \<Rightarrow> 'v" where
  "dict_get d k dflt = (case map_of d k of None \<Rightarrow> dflt | Some v \<Rightarrow> v)"

text \<open>\<^verbatim>\<open>k in d\<close>\<close>

definition dict_mem :: "'k \<Rightarrow> ('k \<times> 'v) list \<Rightarrow> bool" where
  "dict_mem k d = (k \<in> set (map fst d))"

text \<open>\<^verbatim>\<open>if c in d: d[c] += x\<close>\<close>

fun add_if_present :: "(string \<times> real) list \<Rightarrow> string \<Rightarrow> real \<Rightarrow> (string \<times> real) list" where
  "add_if_present [] c x = []"
| "add_if_present ((k, v) # d) c x =
     (if k = c then (k, v + x) # d else (k, v) # add_if_present d c x)"

text \<open>
  \<^verbatim>\<open>max(d.items(), key=lambda x: x[1])\<close> on a non-empty dict: the first item, in
  iteration order, whose value is maximal.
\<close>

fun max_item :: "(string \<times> real) \<Rightarrow> (string \<times> real) list \<Rightarrow> (string \<times> real)" where
  "max_item best [] = best"
| "max_item best (p # ps) = max_item (if snd p > snd best then p else best) ps"

text \<open>
  A \<^verbatim>\<open>str.format\<close> call is kept as its template and its arguments; \<open>F1\<close> is a number
  rendered by \<^verbatim>\<open>{:.1f}\<close>.
\<close>

datatype format_arg = S string | F1 real

record suggestion =
  title :: string
  description :: "string \<times> format_arg list"
  type :: string

section \<open>Suggestions\<close>

text \<open>The income/expense ratio rule.\<close>

definition ratio_suggestions :: "real \<Rightarrow> real \<Rightarrow> py_error + suggestion list" where
  "ratio_suggestions = (\<lambda>total_income total_expenses.
     if total_income > 0 then
       and_then (py_div total_expenses total_income) (\<lambda>expense_ratio.
         if expense_ratio > 0.9 then
           Inr [\<lparr>title = ''Reduce Expenses'',
                 description = (''Your expenses are {:.1f}% of your income. Aim to keep expenses below 70% of income.'',
                                [F1 (expense_ratio * 100)]),
                 type = ''warning''\<rparr>]
         else if expense_ratio < 0.5 then
           Inr [\<lparr>title = ''Great Savings Rate'',
                 description = (''You're saving {:.1f}% of your income. Consider investing more for long-term growth.'',
                                [F1 ((1 - expense_ratio) * 100)]),
                 type = ''success''\<rparr>]
         else Inr [])
     else Inr [])"

text \<open>The emergency fund and the diversification rules.\<close>

definition investment_suggestions :: "real investment list \<Rightarrow> suggestion list" where
  "investment_suggestions user_investments =
    (if user_investments = [] then
       [\<lparr>title = ''Start an Emergency Fund'',
         description = (''Consider building an emergency fund with 3-6 months of expenses.'', []),
         type = ''info''\<rparr>]
     else []) @
    (let investment_types = set (map investment.type user_investments)
     in if card investment_types < 3 \<and> user_investments \<noteq> [] then
          [\<lparr>title = ''Diversify Investments'',
            description = (''Consider diversifying your investment portfolio across different asset classes.'', []),
            type = ''info''\<rparr>]
        else [])"

text \<open>The high expense category rule.\<close>

definition high_category_suggestions :: "(string \<times> real) list \<Rightarrow> real \<Rightarrow> py_error + suggestion list" where
  "high_category_suggestions = (\<lambda>expense_by_category total_expenses.
     case expense_by_category of
       [] \<Rightarrow> Inr []
     | p # ps \<Rightarrow>
         (let highest_category = max_item p ps
          in if snd highest_category > total_expenses * 0.4 then
               and_then (py_div (snd highest_category) total_expenses) (\<lambda>share.
                 Inr [\<lparr>title = ''High '' @ fst highest_category @ '' Expenses'',
                       description = (''{} expenses make up {:.1f}% of your total spending. Consider ways to reduce this.'',
                                      [S (fst highest_category), F1 (share * 100)]),
                       type = ''warning''\<rparr>])
             else Inr []))"

text \<open>The goal progress rule, for one goal and for the loop over the goals.\<close>

definition goal_suggestion :: "real goal \<Rightarrow> py_error + suggestion list" where
  "goal_suggestion g =
    (let target = goal.target_amount g;
         current = goal.current_amount g
     in and_then (if target > 0 then py_div current target else Inr 0) (\<lambda>progress.
          if progress < 0.25 then
            Inr [\<lparr>title = ''Goal: '' @ goal.name g,
                  description = (''You're only {:.1f}% of the way to your goal. Consider allocating more funds.'',
                                 [F1 (progress * 100)]),
                  type = ''warning''\<rparr>]
          else Inr []))"

fun goal_suggestions :: "real goal list \<Rightarrow> py_error + suggestion list" where
  "goal_suggestions [] = Inr []"
| "goal_suggestions (g # gs) =
     and_then (goal_suggestion g) (\<lambda>s. and_then (goal_suggestions gs) (\<lambda>ss. Inr (s @ ss)))"

definition default_suggestions :: "suggestion list" where
  "default_suggestions =
    [\<lparr>title = ''Track Your Expenses'',
      description = (''Start by logging all your expenses to get better financial insights.'', []),
      type = ''info''\<rparr>,
     \<lparr>title = ''Set Financial Goals'',
      description = (''Define clear financial goals to help motivate your saving and investing habits.'', []),
      type = ''info''\<rparr>,
     \<lparr>title = ''Create a Budget'',
      description = (''A budget is the foundation of financial success. Use our budget tool to get started.'', []),
      type = ''info''\<rparr>]"

text \<open>The rules of the suggestions page, applied to the aggregates of a user's records.\<close>

definition suggestion_rules ::
  "real \<Rightarrow> real \<Rightarrow> (string \<times> real) list \<Rightarrow> real goal list \<Rightarrow> real investment list
    \<Rightarrow> py_error + suggestion list" where
  "suggestion_rules =
    (\<lambda>total_income total_expenses expense_by_category user_goals user_investments.
      and_then (ratio_suggestions total_income total_expenses) (\<lambda>s1.
      and_then (Inr (s1 @ investment_suggestions user_investments)) (\<lambda>s2.
      and_then (high_category_suggestions expense_by_category total_expenses) (\<lambda>s3.
      and_then (goal_suggestions user_goals) (\<lambda>s4.
        let suggestions = s2 @ s3 @ s4
        in Inr (if suggestions = [] then default_suggestions else suggestions))))))"

definition suggestions :: "real db \<Rightarrow> user \<Rightarrow> py_error + suggestion list" where
  "suggestions d current_user =
    (let user_expenses = filter_by_user (user.id current_user) (db.expenses d);
         user_incomes = filter_by_user (user.id current_user) (db.incomes d);
         user_goals = filter_by_user (user.id current_user) (db.goals d);
         user_investments = filter_by_user (user.id current_user) (db.investments d);
         total_expenses = py_sum (map expense.amount user_expenses);
         total_income = py_sum (map income.amount user_incomes);
         expense_by_category =
           group_by_category (map (\<lambda>e. (expense.category e, expense.amount e)) user_expenses)
     in suggestion_rules total_income total_expenses expense_by_category
          user_goals user_investments)"

section \<open>Budgets\<close>

text \<open>
  The lookup-or-create step shared by both budget update loops:
  \<^verbatim>\<open>Budget.query.filter_by(category=category, user_id=current_user.id).first()\<close>, then
  either an \<^verbatim>\<open>UPDATE\<close> of that row by primary key or an \<^verbatim>\<open>INSERT\<close>.
\<close>

definition set_budget :: "nat \<Rightarrow> string \<Rightarrow> real \<Rightarrow> real budget list \<Rightarrow> real budget list" where
  "set_budget uid c a rows =
    (case List.find (\<lambda>b. budget.category b = c \<and> user_id b = uid) rows of
       Some b \<Rightarrow> map (\<lambda>r. if row.id r = row.id b then r\<lparr>budget.amount := a\<rparr> else r) rows
     | None \<Rightarrow>
         rows @ [\<lparr>row.id = next_id rows, user_id = uid,
                  budget.category = c, budget.amount = a\<rparr>])"

text \<open>
  \<^verbatim>\<open>budget_dict = {budget.category: budget.amount for budget in user_budgets}\<close> and the
  loop that gives every default category an entry: the rows it adds to the session and
  the completed dict.
\<close>

definition budget_dict_of :: "real budget list \<Rightarrow> (string \<times> real) list" where
  "budget_dict_of user_budgets =
    foldl (\<lambda>d b. dict_set d (budget.category b) (budget.amount b)) [] user_budgets"

fun ensure_budgets ::
  "nat \<Rightarrow> string list \<Rightarrow> real budget list \<times> (string \<times> real) list \<Rightarrow> real budget list \<times> (string \<times> real) list" where
  "ensure_budgets uid [] (rows, budget_dict) = (rows, budget_dict)"
| "ensure_budgets uid (c # cs) (rows, budget_dict) =
     (if \<not> dict_mem c budget_dict then
        ensure_budgets uid cs
          (rows @ [\<lparr>row.id = next_id rows, user_id = uid,
                    budget.category = c, budget.amount = 0\<rparr>],
           dict_set budget_dict c 0)
      else ensure_budgets uid cs (rows, budget_dict))"

record budget_entry =
  category :: string
  budget_amount :: real
  spent_amount :: real
  percentage :: real
  status :: string

text \<open>Current spending by category, over the default categories only.\<close>

definition spending_by_category :: "real expense list \<Rightarrow> (string \<times> real) list" where
  "spending_by_category user_expenses =
    foldl (\<lambda>d e. add_if_present d (expense.category e) (expense.amount e))
      (map (\<lambda>c. (c, 0)) default_expense_categories) user_expenses"

definition budget_row :: "(string \<times> real) list \<Rightarrow> (string \<times> real) list \<Rightarrow> string \<Rightarrow> py_error + budget_entry" where
  "budget_row budget_dict spending c =
    (let budget_amount = dict_get budget_dict c 0;
         spent_amount = dict_get spending c 0
     in and_then
          (if budget_amount > 0
           then and_then (py_div spent_amount budget_amount) (\<lambda>q. Inr (q * 100))
           else Inr 0)
          (\<lambda>percentage.
            Inr \<lparr>budget_entry.category = c,
                 budget_amount = budget_amount,
                 spent_amount = spent_amount,
                 percentage = min percentage 100,
                 status = (if percentage > 100 then ''danger''
                           else if percentage > 70 then ''warning'' else ''success'')\<rparr>))"

fun budget_data :: "(string \<times> real) list \<Rightarrow> (string \<times> real) list \<Rightarrow> string list \<Rightarrow> py_error + budget_entry list" where
  "budget_data budget_dict spending [] = Inr []"
| "budget_data budget_dict spending (c # cs) =
     and_then (budget_row budget_dict spending c) (\<lambda>r.
       and_then (budget_data budget_dict spending cs) (\<lambda>rs. Inr (r # rs)))"

section \<open>Requests and responses\<close>

text \<open>
  Request payloads after parsing (\<^verbatim>\<open>float(...)\<close>, \<^verbatim>\<open>strptime\<close>); an optional field is
  \<open>None\<close> when the key is absent. A payload that fails to parse raises before any commit
  and is not a value of these types.
\<close>

record txn_form =
  description :: string
  amount :: real
  category :: string
  date :: "date option"

record goal_form =
  name :: string
  target_amount :: real
  current_amount :: "real option"
  target_date :: "date option"
  description :: "string option"

record investment_form =
  name :: string
  type :: string
  amount :: real
  purchase_date :: date
  current_value :: "real option"
  notes_text :: "string option"

record goal_update =
  name :: "string option"
  target_amount :: "real option"
  current_amount :: "real option"
  target_date :: "date option option"
  description :: "string option"

record investment_update =
  name :: "string option"
  type :: "string option"
  amount :: "real option"
  purchase_date :: "date option"
  current_value :: "real option"
  notes_text :: "string option"

type_synonym expense_json = "nat \<times> string \<times> real \<times> string \<times> date"
type_synonym income_json = "nat \<times> string \<times> real \<times> string \<times> date"
type_synonym goal_json = "nat \<times> string \<times> real \<times> real \<times> date option \<times> string"
type_synonym investment_json = "nat \<times> string \<times> string \<times> real \<times> date \<times> real \<times> string"

definition expense_json :: "real expense \<Rightarrow> expense_json" where
  "expense_json e =
    (row.id e, expense.description e, expense.amount e, expense.category e, expense.date e)"

definition income_json :: "real income \<Rightarrow> income_json" where
  "income_json i =
    (row.id i, income.description i, income.amount i, income.category i, income.date i)"

definition goal_json :: "real goal \<Rightarrow> goal_json" where
  "goal_json g =
    (row.id g, goal.name g, goal.target_amount g, goal.current_amount g, goal.target_date g,
     goal.description g)"

definition investment_json :: "real investment \<Rightarrow> investment_json" where
  "investment_json i =
    (row.id i, investment.name i, investment.type i, investment.amount i,
     investment.purchase_date i, investment.current_value i, investment.notes_text i)"

datatype response =
    Render_index "real index_page"
  | Render_expenses "real expense list" "string list"
  | Render_income "real income list" "string list"
  | Render_goals "real goal list"
  | Render_investments "real investment list" "string list"
  | Render_suggestions "suggestion list"
  | Render_budget "budget_entry list" "string list"
  | Render_login "string option"
  | Render_register "string option"
  | Redirect string "string option"
  | Json_expenses "expense_json list"
  | Json_incomes "income_json list"
  | Json_goals "goal_json list"
  | Json_investments "investment_json list"
  | Json_expense expense_json
  | Json_income income_json
  | Json_goal goal_json
  | Json_investment investment_json
  | Json_budget "(string \<times> real) list"
  | Json_summary "real summary"
  | Json_success
  | Json_error string nat
  | Internal_error py_error

section \<open>Expenses\<close>

definition new_expense :: "real db \<Rightarrow> user \<Rightarrow> date \<Rightarrow> txn_form \<Rightarrow> real expense" where
  "new_expense d current_user today f =
    \<lparr>row.id = next_id (db.expenses d), user_id = user.id current_user,
     expense.description = txn_form.description f,
     expense.amount = txn_form.amount f,
     expense.category = txn_form.category f,
     expense.date = (case txn_form.date f of None \<Rightarrow> today | Some dt \<Rightarrow> dt)\<rparr>"

definition expense_tracker :: "real db \<Rightarrow> user \<Rightarrow> date \<Rightarrow> txn_form option \<Rightarrow> response \<times> real db" where
  "expense_tracker d current_user today post =
    (let user_expenses = filter_by_user (user.id current_user) (db.expenses d)
     in case post of
          Some f \<Rightarrow>
            (Redirect ''expense_tracker'' (Some ''Expense added successfully!''),
             d\<lparr>db.expenses := db.expenses d @ [new_expense d current_user today f]\<rparr>)
        | None \<Rightarrow> (Render_expenses user_expenses default_expense_categories, d))"

definition get_expenses :: "real db \<Rightarrow> user \<Rightarrow> response \<times> real db" where
  "get_expenses d current_user =
    (Json_expenses (map expense_json (filter_by_user (user.id current_user) (db.expenses d))), d)"

definition add_expense :: "real db \<Rightarrow> user \<Rightarrow> date \<Rightarrow> txn_form \<Rightarrow> response \<times> real db" where
  "add_expense d current_user today f =
    (let e = new_expense d current_user today f
     in (Json_expense (expense_json e), d\<lparr>db.expenses := db.expenses d @ [e]\<rparr>))"

definition delete_expense :: "real db \<Rightarrow> user \<Rightarrow> nat \<Rightarrow> response \<times> real db" where
  "delete_expense d current_user expense_id =
    (case first_by_id_user expense_id (user.id current_user) (db.expenses d) of
       Some e \<Rightarrow> (Json_success, d\<lparr>db.expenses := delete_row (row.id e) (db.expenses d)\<rparr>)
     | None \<Rightarrow> (Json_error ''Expense not found'' 404, d))"

section \<open>Income\<close>

definition new_income :: "real db \<Rightarrow> user \<Rightarrow> date \<Rightarrow> txn_form \<Rightarrow> real income" where
  "new_income d current_user today f =
    \<lparr>row.id = next_id (db.incomes d), user_id = user.id current_user,
     income.description = txn_form.description f,
     income.amount = txn_form.amount f,
     income.category = txn_form.category f,
     income.date = (case txn_form.date f of None \<Rightarrow> today | Some dt \<Rightarrow> dt)\<rparr>"

definition income_tracker :: "real db \<Rightarrow> user \<Rightarrow> date \<Rightarrow> txn_form option \<Rightarrow> response \<times> real db" where
  "income_tracker d current_user today post =
    (let user_incomes = filter_by_user (user.id current_user) (db.incomes d)
     in case post of
          Some f \<Rightarrow>
            (Redirect ''income_tracker'' (Some ''Income added successfully!''),
             d\<lparr>db.incomes := db.incomes d @ [new_income d current_user today f]\<rparr>)
        | None \<Rightarrow> (Render_income user_incomes default_income_categories, d))"

definition get_incomes :: "real db \<Rightarrow> user \<Rightarrow> response \<times> real db" where
  "get_incomes d current_user =
    (Json_incomes (map income_json (filter_by_user (user.id current_user) (db.incomes d))), d)"

definition add_income :: "real db \<Rightarrow> user \<Rightarrow> date \<Rightarrow> txn_form \<Rightarrow> response \<times> real db" where
  "add_income d current_user today f =
    (let i = new_income d current_user today f
     in (Json_income (income_json i), d\<lparr>db.incomes := db.incomes d @ [i]\<rparr>))"

definition delete_income :: "real db \<Rightarrow> user \<Rightarrow> nat \<Rightarrow> response \<times> real db" where
  "delete_income d current_user income_id =
    (case first_by_id_user income_id (user.id current_user) (db.incomes d) of
       Some i \<Rightarrow> (Json_success, d\<lparr>db.incomes := delete_row (row.id i) (db.incomes d)\<rparr>)
     | None \<Rightarrow> (Json_error ''Income not found'' 404, d))"

section \<open>Goals\<close>

definition new_goal :: "real db \<Rightarrow> user \<Rightarrow> goal_form \<Rightarrow> real goal" where
  "new_goal d current_user f =
    \<lparr>row.id = next_id (db.goals d), user_id = user.id current_user,
     goal.name = goal_form.name f,
     goal.target_amount = goal_form.target_amount f,
     goal.current_amount = (case goal_form.current_amount f of None \<Rightarrow> 0 | Some a \<Rightarrow> a),
     goal.target_date = goal_form.target_date f,
     goal.description = (case goal_form.description f of None \<Rightarrow> [] | Some t \<Rightarrow> t)\<rparr>"

definition goal_tracker :: "real db \<Rightarrow> user \<Rightarrow> goal_form option \<Rightarrow> response \<times> real db" where
  "goal_tracker d current_user post =
    (let user_goals = filter_by_user (user.id current_user) (db.goals d)
     in case post of
          Some f \<Rightarrow>
            (Redirect ''goal_tracker'' (Some ''Goal added successfully!''),
             d\<lparr>db.goals := db.goals d @ [new_goal d current_user f]\<rparr>)
        | None \<Rightarrow> (Render_goals user_goals, d))"

definition get_goals :: "real db \<Rightarrow> user \<Rightarrow> response \<times> real db" where
  "get_goals d current_user =
    (Json_goals (map goal_json (filter_by_user (user.id current_user) (db.goals d))), d)"

definition add_goal :: "real db \<Rightarrow> user \<Rightarrow> goal_form \<Rightarrow> response \<times> real db" where
  "add_goal d current_user f =
    (let g = new_goal d current_user f
     in (Json_goal (goal_json g), d\<lparr>db.goals := db.goals d @ [g]\<rparr>))"

text \<open>The field assignments of \<^verbatim>\<open>update_goal\<close>, in the order of the source.\<close>

definition apply_goal_update :: "goal_update \<Rightarrow> real goal \<Rightarrow> real goal" where
  "apply_goal_update data g =
    (let g1 = (case goal_update.name data of None \<Rightarrow> g | Some v \<Rightarrow> g\<lparr>goal.name := v\<rparr>);
         g2 = (case goal_update.target_amount data of None \<Rightarrow> g1
               | Some v \<Rightarrow> g1\<lparr>goal.target_amount := v\<rparr>);
         g3 = (case goal_update.current_amount data of None \<Rightarrow> g2
               | Some v \<Rightarrow> g2\<lparr>goal.current_amount := v\<rparr>);
         g4 = (case goal_update.target_date data of None \<Rightarrow> g3
               | Some v \<Rightarrow> g3\<lparr>goal.target_date := v\<rparr>);
         g5 = (case goal_update.description data of None \<Rightarrow> g4
               | Some v \<Rightarrow> g4\<lparr>goal.description := v\<rparr>)
     in g5)"

definition update_goal :: "real db \<Rightarrow> user \<Rightarrow> nat \<Rightarrow> goal_update \<Rightarrow> response \<times> real db" where
  "update_goal d current_user goal_id data =
    (case first_by_id_user goal_id (user.id current_user) (db.goals d) of
       Some g \<Rightarrow>
         (let g' = apply_goal_update data g
          in (Json_goal (goal_json g'),
              d\<lparr>db.goals := map (\<lambda>r. if row.id r = row.id g then g' else r) (db.goals d)\<rparr>))
     | None \<Rightarrow> (Json_error ''Goal not found'' 404, d))"

definition delete_goal :: "real db \<Rightarrow> user \<Rightarrow> nat \<Rightarrow> response \<times> real db" where
  "delete_goal d current_user goal_id =
    (case first_by_id_user goal_id (user.id current_user) (db.goals d) of
       Some g \<Rightarrow> (Json_success, d\<lparr>db.goals := delete_row (row.id g) (db.goals d)\<rparr>)
     | None \<Rightarrow> (Json_error ''Goal not found'' 404, d))"

section \<open>Investments\<close>

definition investment_types :: "string list" where
  "investment_types =
    [''Stocks'', ''Bonds'', ''Mutual Funds'', ''ETFs'', ''Real Estate'',
     ''Retirement Accounts'', ''Cryptocurrencies'', ''Other'']"

definition new_investment :: "real db \<Rightarrow> user \<Rightarrow> investment_form \<Rightarrow> real investment" where
  "new_investment d current_user f =
    \<lparr>row.id = next_id (db.investments d), user_id = user.id current_user,
     investment.name = investment_form.name f,
     investment.type = investment_form.type f,
     investment.amount = investment_form.amount f,
     investment.purchase_date = investment_form.purchase_date f,
     investment.current_value =
       (case investment_form.current_value f of None \<Rightarrow> investment_form.amount f | Some v \<Rightarrow> v),
     investment.notes_text = (case investment_form.notes_text f of None \<Rightarrow> [] | Some t \<Rightarrow> t)\<rparr>"

definition investment_tracker :: "real db \<Rightarrow> user \<Rightarrow> investment_form option \<Rightarrow> response \<times> real db" where
  "investment_tracker d current_user post =
    (let user_investments = filter_by_user (user.id current_user) (db.investments d)
     in case post of
          Some f \<Rightarrow>
            (Redirect ''investment_tracker'' (Some ''Investment added successfully!''),
             d\<lparr>db.investments := db.investments d @ [new_investment d current_user f]\<rparr>)
        | None \<Rightarrow> (Render_investments user_investments investment_types, d))"

definition get_investments :: "real db \<Rightarrow> user \<Rightarrow> response \<times> real db" where
  "get_investments d current_user =
    (Json_investments
       (map investment_json (filter_by_user (user.id current_user) (db.investments d))), d)"

definition add_investment :: "real db \<Rightarrow> user \<Rightarrow> investment_form \<Rightarrow> response \<times> real db" where
  "add_investment d current_user f =
    (let i = new_investment d current_user f
     in (Json_investment (investment_json i), d\<lparr>db.investments := db.investments d @ [i]\<rparr>))"

definition apply_investment_update :: "investment_update \<Rightarrow> real investment \<Rightarrow> real investment" where
  "apply_investment_update data i =
    (let i1 = (case investment_update.name data of None \<Rightarrow> i
               | Some v \<Rightarrow> i\<lparr>investment.name := v\<rparr>);
         i2 = (case investment_update.type data of None \<Rightarrow> i1
               | Some v \<Rightarrow> i1\<lparr>investment.type := v\<rparr>);
         i3 = (case investment_update.amount data of None \<Rightarrow> i2
               | Some v \<Rightarrow> i2\<lparr>investment.amount := v\<rparr>);
         i4 = (case investment_update.purchase_date data of None \<Rightarrow> i3
               | Some v \<Rightarrow> i3\<lparr>investment.purchase_date := v\<rparr>);
         i5 = (case investment_update.current_value data of None \<Rightarrow> i4
               | Some v \<Rightarrow> i4\<lparr>investment.current_value := v\<rparr>);
         i6 = (case investment_update.notes_text data of None \<Rightarrow> i5
               | Some v \<Rightarrow> i5\<lparr>investment.notes_text := v\<rparr>)
     in i6)"

definition update_investment :: "real db \<Rightarrow> user \<Rightarrow> nat \<Rightarrow> investment_update \<Rightarrow> response \<times> real db" where
  "update_investment d current_user investment_id data =
    (case first_by_id_user investment_id (user.id current_user) (db.investments d) of
       Some i \<Rightarrow>
         (let i' = apply_investment_update data i
          in (Json_investment (investment_json i'),
              d\<lparr>db.investments :=
                   map (\<lambda>r. if row.id r = row.id i then i' else r) (db.investments d)\<rparr>))
     | None \<Rightarrow> (Json_error ''Investment not found'' 404, d))"

definition delete_investment :: "real db \<Rightarrow> user \<Rightarrow> nat \<Rightarrow> response \<times> real db" where
  "delete_investment d current_user investment_id =
    (case first_by_id_user investment_id (user.id current_user) (db.investments d) of
       Some i \<Rightarrow> (Json_success, d\<lparr>db.investments := delete_row (row.id i) (db.investments d)\<rparr>)
     | None \<Rightarrow> (Json_error ''Investment not found'' 404, d))"

section \<open>The budget page and the budget API\<close>

text \<open>
  The form of the budget page maps the field \<^verbatim>\<open>budget_<category>\<close> to its number; a
  missing or blank field counts as 0. Rows added to the session by the first loop are
  written by the next commit of the request (the queries of the \<^verbatim>\<open>POST\<close> loop see them);
  a request that ends without a commit leaves the stored tables as they were.
\<close>

definition budget_planner :: "real db \<Rightarrow> user \<Rightarrow> (string \<rightharpoonup> real) option \<Rightarrow> response \<times> real db" where
  "budget_planner d current_user post =
    (let user_budgets = filter_by_user (user.id current_user) (db.budgets d);
         user_expenses = filter_by_user (user.id current_user) (db.expenses d);
         (pending, budget_dict) =
           ensure_budgets (user.id current_user) default_expense_categories
             (db.budgets d, budget_dict_of user_budgets);
         committed = (if length budget_dict \<noteq> length default_expense_categories
                      then pending else db.budgets d)
     in case post of
          Some form \<Rightarrow>
            (Redirect ''budget_planner'' (Some ''Budget updated successfully!''),
             d\<lparr>db.budgets :=
                 foldl (\<lambda>rows c.
                          set_budget (user.id current_user) c
                            (case form (''budget_'' @ c) of None \<Rightarrow> 0 | Some a \<Rightarrow> a) rows)
                   pending default_expense_categories\<rparr>)
        | None \<Rightarrow>
            (case budget_data budget_dict (spending_by_category user_expenses)
                    default_expense_categories of
               Inl e \<Rightarrow> Internal_error e
             | Inr rows \<Rightarrow> Render_budget rows default_expense_categories,
             d\<lparr>db.budgets := committed\<rparr>))"

definition get_budget :: "real db \<Rightarrow> user \<Rightarrow> response \<times> real db" where
  "get_budget d current_user =
    (Json_budget (budget_dict_of (filter_by_user (user.id current_user) (db.budgets d))), d)"

definition update_budget :: "real db \<Rightarrow> user \<Rightarrow> (string \<times> real) list \<Rightarrow> response \<times> real db" where
  "update_budget d current_user data =
    (Json_success,
     d\<lparr>db.budgets :=
         foldl (\<lambda>rows (c, a). set_budget (user.id current_user) c a rows) (db.budgets d) data\<rparr>)"

section \<open>Authentication\<close>

text \<open>
  The session holds the identity stored by \<^verbatim>\<open>login_user\<close> and the user name the login
  handler adds. The two password functions of \<^verbatim>\<open>werkzeug.security\<close> are parameters.
\<close>

record session =
  login_id :: "nat option"
  username :: "string option"

record login_form =
  username :: string
  password :: string

record register_form =
  username :: string
  email :: string
  password :: string

text \<open>\<^verbatim>\<open>load_user\<close> behind \<^verbatim>\<open>current_user\<close>: \<^verbatim>\<open>User.query.get(int(user_id))\<close>\<close>

definition load_user :: "real db \<Rightarrow> nat \<Rightarrow> user option" where
  "load_user d i = List.find (\<lambda>u. user.id u = i) (db.users d)"

definition current_user :: "real db \<Rightarrow> session \<Rightarrow> user option" where
  "current_user d s = (case login_id s of None \<Rightarrow> None | Some i \<Rightarrow> load_user d i)"

definition login ::
  "(string \<Rightarrow> string \<Rightarrow> bool) \<Rightarrow> real db \<Rightarrow> session \<Rightarrow> login_form option \<Rightarrow> response \<times> session" where
  "login check_password_hash d s post =
    (if current_user d s \<noteq> None then (Redirect ''index'' None, s)
     else case post of
            Some f \<Rightarrow>
              (case List.find (\<lambda>u. user.username u = login_form.username f) (db.users d) of
                 Some u \<Rightarrow>
                   if check_password_hash (user.password_hash u) (login_form.password f)
                   then (Redirect ''index'' (Some ''Login successful!''),
                         s\<lparr>login_id := Some (user.id u),
                           session.username := Some (user.username u)\<rparr>)
                   else (Render_login (Some ''Invalid username or password''), s)
               | None \<Rightarrow> (Render_login (Some ''Invalid username or password''), s))
          | None \<Rightarrow> (Render_login None, s))"

definition register ::
  "(string \<Rightarrow> string) \<Rightarrow> real db \<Rightarrow> session \<Rightarrow> register_form option \<Rightarrow> response \<times> real db" where
  "register generate_password_hash d s post =
    (if current_user d s \<noteq> None then (Redirect ''index'' None, d)
     else case post of
            Some f \<Rightarrow>
              if List.find (\<lambda>u. user.username u = register_form.username f) (db.users d) \<noteq> None
              then (Render_register (Some ''Username already exists''), d)
              else if List.find (\<lambda>u. user.email u = register_form.email f) (db.users d) \<noteq> None
              then (Render_register (Some ''Email already registered''), d)
              else
                (let new_user =
                       \<lparr>user.id = next_user_id (db.users d),
                        user.username = register_form.username f,
                        user.email = register_form.email f,
                        user.password_hash = generate_password_hash (register_form.password f)\<rparr>
                 in (Redirect ''login'' (Some ''Registration successful! Please log in.''),
                     d\<lparr>db.users := db.users d @ [new_user],
                       db.budgets :=
                         foldl (\<lambda>rows c.
                                  rows @ [\<lparr>row.id = next_id rows, user_id = user.id new_user,
                                           budget.category = c, budget.amount = 0\<rparr>])
                           (db.budgets d) default_expense_categories\<rparr>))
          | None \<Rightarrow> (Render_register None, d))"

definition logout :: "session \<Rightarrow> response \<times> session" where
  "logout s =
    (Redirect ''login'' (Some ''You have been logged out''),
     s\<lparr>login_id := None, session.username := None\<rparr>)"

section \<open>The routes behind \<^verbatim>\<open>login_required\<close>\<close>

datatype request =
    Get_index
  | Expense_tracker "txn_form option"
  | Get_expenses
  | Add_expense txn_form
  | Delete_expense nat
  | Income_tracker "txn_form option"
  | Get_incomes
  | Add_income txn_form
  | Delete_income nat
  | Goal_tracker "goal_form option"
  | Get_goals
  | Add_goal goal_form
  | Update_goal nat goal_update
  | Delete_goal nat
  | Investment_tracker "investment_form option"
  | Get_investments
  | Add_investment investment_form
  | Update_investment nat investment_update
  | Delete_investment nat
  | Get_suggestions
  | Budget_planner "(string \<rightharpoonup> real) option"
  | Get_budget
  | Update_budget "(string \<times> real) list"
  | Get_financial_summary

fun handle :: "real db \<Rightarrow> user \<Rightarrow> date \<Rightarrow> request \<Rightarrow> response \<times> real db" where
  "handle d u today Get_index = (Render_index (index d u), d)"
| "handle d u today (Expense_tracker post) = expense_tracker d u today post"
| "handle d u today Get_expenses = get_expenses d u"
| "handle d u today (Add_expense f) = add_expense d u today f"
| "handle d u today (Delete_expense i) = delete_expense d u i"
| "handle d u today (Income_tracker post) = income_tracker d u today post"
| "handle d u today Get_incomes = get_incomes d u"
| "handle d u today (Add_income f) = add_income d u today f"
| "handle d u today (Delete_income i) = delete_income d u i"
| "handle d u today (Goal_tracker post) = goal_tracker d u post"
| "handle d u today Get_goals = get_goals d u"
| "handle d u today (Add_goal f) = add_goal d u f"
| "handle d u today (Update_goal i data) = update_goal d u i data"
| "handle d u today (Delete_goal i) = delete_goal d u i"
| "handle d u today (Investment_tracker post) = investment_tracker d u post"
| "handle d u today Get_investments = get_investments d u"
| "handle d u today (Add_investment f) = add_investment d u f"
| "handle d u today (Update_investment i data) = update_investment d u i data"
| "handle d u today (Delete_investment i) = delete_investment d u i"
| "handle d u today Get_suggestions =
     (case suggestions d u of Inl e \<Rightarrow> Internal_error e | Inr s \<Rightarrow> Render_suggestions s, d)"
| "handle d u today (Budget_planner post) = budget_planner d u post"
| "handle d u today Get_budget = get_budget d u"
| "handle d u today (Update_budget data) = update_budget d u data"
| "handle d u today Get_financial_summary = (Json_summary (get_financial_summary d u), d)"

text \<open>Primary keys are unique within each table (\<^verbatim>\<open>primary_key=True\<close>).\<close>

definition primary_keys :: "real db \<Rightarrow> bool" where
  "primary_keys d \<longleftrightarrow>
     distinct (map user.id (db.users d)) \<and>
     distinct (map row.id (db.expenses d)) \<and>
     distinct (map row.id (db.incomes d)) \<and>
     distinct (map row.id (db.goals d)) \<and>
     distinct (map row.id (db.investments d)) \<and>
     distinct (map row.id (db.budgets d))"

text \<open>User names and e-mail addresses are unique (\<^verbatim>\<open>unique=True\<close>).\<close>

definition unique_users :: "real db \<Rightarrow> bool" where
  "unique_users d \<longleftrightarrow>
     distinct (map user.username (db.users d)) \<and> distinct (map user.email (db.users d))"

text \<open>
  The records of all users but one: the user table and, of each owned table, the rows
  whose \<open>user_id\<close> is not the given id.
\<close>

definition foreign_rows :: "nat \<Rightarrow> real db \<Rightarrow> real db" where
  "foreign_rows uid d =
    d\<lparr>db.expenses := filter (\<lambda>r. user_id r \<noteq> uid) (db.expenses d),
      db.incomes := filter (\<lambda>r. user_id r \<noteq> uid) (db.incomes d),
      db.goals := filter (\<lambda>r. user_id r \<noteq> uid) (db.goals d),
      db.investments := filter (\<lambda>r. user_id r \<noteq> uid) (db.investments d),
      db.budgets := filter (\<lambda>r. user_id r \<noteq> uid) (db.budgets d)\<rparr>"

section \<open>Doubles\<close>

text \<open>
  The values of a Python \<^verbatim>\<open>float\<close>: IEEE 754 binary64. A finite double is kept as the
  rational number it denotes; the two zeros, which \<^verbatim>\<open>==\<close> does not tell apart, are one
  value.
\<close>

datatype double = Finite rat | PlusInfinity | MinusInfinity | NaN

definition pow2 :: "int \<Rightarrow> rat" where
  "pow2 e = (if e \<ge> 0 then 2 ^ nat e else 1 / 2 ^ nat (- e))"

text \<open>The number of binary digits of a positive integer.\<close>

function bit_length :: "int \<Rightarrow> int" where
  "bit_length n = (if n \<le> 0 then 0 else 1 + bit_length (n div 2))"
  by pat_completeness auto
termination
  by (relation "measure nat") auto

text \<open>The exponent \<open>e\<close> with \<open>2 ^ e \<le> q < 2 ^ (e + 1)\<close>, for a positive rational \<open>q\<close>.\<close>

definition floor_log2 :: "rat \<Rightarrow> int" where
  "floor_log2 q =
    (let (a, b) = quotient_of q;
         k = bit_length a - bit_length b
     in if pow2 k \<le> q then k else k - 1)"

definition round_half_even :: "rat \<Rightarrow> int" where
  "round_half_even x =
    (let f = \<lfloor>x\<rfloor>; r = x - of_int f
     in if r < 1 / 2 then f else if r > 1 / 2 then f + 1 else if even f then f else f + 1)"

text \<open>
  Rounding to the nearest double, ties to even: 53 significant bits, the least exponent
  of the unit in the last place is -1074 (subnormal numbers), and a result of magnitude
  \<open>2 ^ 1024\<close> or more is an infinity.
\<close>

definition round_to_double :: "rat \<Rightarrow> double" where
  "round_to_double q =
    (if q = 0 then Finite 0
     else
       let e = max (floor_log2 \<bar>q\<bar> - 52) (- 1074);
           m = of_int (round_half_even (\<bar>q\<bar> / pow2 e)) * pow2 e
       in if m \<ge> pow2 1024 then (if q < 0 then MinusInfinity else PlusInfinity)
          else Finite (if q < 0 then - m else m))"

fun double_add :: "double \<Rightarrow> double \<Rightarrow> double" where
  "double_add NaN y = NaN"
| "double_add x NaN = NaN"
| "double_add PlusInfinity MinusInfinity = NaN"
| "double_add MinusInfinity PlusInfinity = NaN"
| "double_add PlusInfinity y = PlusInfinity"
| "double_add MinusInfinity y = MinusInfinity"
| "double_add x PlusInfinity = PlusInfinity"
| "double_add x MinusInfinity = MinusInfinity"
| "double_add (Finite a) (Finite b) = round_to_double (a + b)"

fun double_neg :: "double \<Rightarrow> double" where
  "double_neg (Finite a) = Finite (- a)"
| "double_neg PlusInfinity = MinusInfinity"
| "double_neg MinusInfinity = PlusInfinity"
| "double_neg NaN = NaN"

text \<open>
  The \<open>0\<close>, \<open>+\<close> and \<open>-\<close> of the doubles. Python's \<^verbatim>\<open>sum\<close> and the grouping loops start
  from the integer 0, which the first addition converts to the double 0.
\<close>

instantiation double :: "{zero,plus,uminus,minus}"
begin

definition zero_double :: double where
  "zero_double = Finite 0"

definition plus_double :: "double \<Rightarrow> double \<Rightarrow> double" where
  "plus_double x y = double_add x y"

definition uminus_double :: "double \<Rightarrow> double" where
  "uminus_double x = double_neg x"

definition minus_double :: "double \<Rightarrow> double \<Rightarrow> double" where
  "minus_double x y = double_add x (double_neg y)"

instance ..

end


section \<open>Example data\<close>

definition alice :: user where
  "alice = \<lparr>user.id = 1, user.username = ''alice'', user.email = ''alice@example.org'',
            user.password_hash = ''hash-a''\<rparr>"

definition bob :: user where
  "bob = \<lparr>user.id = 2, user.username = ''bob'', user.email = ''bob@example.org'',
          user.password_hash = ''hash-b''\<rparr>"

definition example_db :: "real db" where
  "example_db =
    \<lparr>db.users = [alice, bob],
     db.expenses =
       [\<lparr>row.id = 1, user_id = 1, expense.description = ''Rent'', expense.amount = 40,
         expense.category = ''Housing'', expense.date = 3\<rparr>,
        \<lparr>row.id = 2, user_id = 2, expense.description = ''Lunch'', expense.amount = 7,
         expense.category = ''Food'', expense.date = 4\<rparr>,
        \<lparr>row.id = 3, user_id = 1, expense.description = ''Vet'', expense.amount = 10,
         expense.category = ''Pets'', expense.date = 5\<rparr>],
     db.incomes =
       [\<lparr>row.id = 1, user_id = 1, income.description = ''Pay'', income.amount = 100,
         income.category = ''Salary'', income.date = 1\<rparr>,
        \<lparr>row.id = 2, user_id = 2, income.description = ''Gig'', income.amount = 20,
         income.category = ''Freelance'', income.date = 2\<rparr>],
     db.goals =
       [\<lparr>row.id = 1, user_id = 1, goal.name = ''Bike'', goal.target_amount = 200,
         goal.current_amount = 20, goal.target_date = None, goal.description = []\<rparr>],
     db.investments =
       [\<lparr>row.id = 1, user_id = 1, investment.name = ''Fund'', investment.type = ''ETFs'',
         investment.amount = 30, investment.purchase_date = 2, investment.current_value = 35,
         investment.notes_text = []\<rparr>],
     db.budgets =
       [\<lparr>row.id = 1, user_id = 1, budget.category = ''Housing'', budget.amount = 50\<rparr>,
        \<lparr>row.id = 2, user_id = 2, budget.category = ''Food'', budget.amount = 5\<rparr>]\<rparr>"

text \<open>A user whose two expenses cancel: a purchase and a returned deposit.\<close>

definition refund_db :: "real db" where
  "refund_db =
    \<lparr>db.users = [alice],
     db.expenses =
       [\<lparr>row.id = 1, user_id = 1, expense.description = ''Groceries'', expense.amount = 5,
         expense.category = ''Food'', expense.date = 1\<rparr>,
        \<lparr>row.id = 2, user_id = 1, expense.description = ''Deposit returned'',
         expense.amount = - 5, expense.category = ''Housing'', expense.date = 2\<rparr>],
     db.incomes =
       [\<lparr>row.id = 1, user_id = 1, income.description = ''Pay'', income.amount = 10,
         income.category = ''Salary'', income.date = 1\<rparr>],
     db.goals = [],
     db.investments = [],
     db.budgets = []\<rparr>"

text \<open>The session of a visitor who is not logged in.\<close>

definition anonymous :: session where
  "anonymous = \<lparr>login_id = None, session.username = None\<rparr>"

text \<open>The session of the first user after login.\<close>

definition alice_session :: session where
  "alice_session = \<lparr>login_id = Some 1, session.username = Some ''alice''\<rparr>"


section \<open>Sums and grouping\<close>

text \<open>On exact numbers the left fold of \<^verbatim>\<open>sum\<close> is the sum of the list.\<close>

lemma foldl_add_real: "foldl (+) (a::real) xs = a + sum_list xs"
  by (induction xs arbitrary: a) simp_all

lemma py_sum_sum_list: "py_sum xs = sum_list (xs::real list)"
  by (simp add: py_sum_def foldl_add_real)

text \<open>
  One round of the grouping loop, for every number type: the keys, and the value of each
  key.
\<close>

lemma add_to_category_keys:
  "set (map fst (add_to_category d c x)) = insert c (set (map fst d))"
  by (induction d c x rule: add_to_category.induct) auto



text \<open>
  The grouping loop from any dict: each key of the result holds the running sum, left to
  right, of the values grouped under it, started from the value the dict held (or 0).
\<close>

lemma group_loop_keys:
  "set (map fst (foldl (\<lambda>d (c, x). add_to_category d c x) d kvs)) =
   set (map fst d) \<union> set (map fst kvs)"
proof (induction kvs arbitrary: d)
  case Nil
  show ?case by simp
next
  case (Cons p kvs)
  obtain c x where p: "p = (c, x)" by (cases p)
  show ?case
    using Cons [of "add_to_category d c x"] add_to_category_keys [of d c x]
    by (auto simp: p)
qed








section \<open>Arithmetic of doubles near \<open>10 ^ 16\<close>\<close>







section \<open>The summary totals\<close>




section \<open>Grouping by category in the summary\<close>




section \<open>The two net worth figures\<close>




section \<open>Expenses outside the default categories\<close>










section \<open>Deleting a record\<close>

text \<open>The lookup by id and owner, and the deletion by primary key.\<close>

lemma first_by_id_user_None:
  "first_by_id_user i uid rows = None \<longleftrightarrow>
     \<not> (\<exists>r\<in>set rows. row.id r = i \<and> user_id r = uid)"
  by (auto simp: first_by_id_user_def find_None_iff)

lemma first_by_id_user_Some:
  "first_by_id_user i uid rows = Some r \<Longrightarrow> r \<in> set rows \<and> row.id r = i \<and> user_id r = uid"
  by (auto simp: first_by_id_user_def find_Some_iff)

lemma first_by_id_user_unique:
  assumes "distinct (map row.id rows)" "r \<in> set rows" "row.id r = i" "user_id r = uid"
  shows "first_by_id_user i uid rows = Some r"
proof (cases "first_by_id_user i uid rows")
  case None
  with assms show ?thesis by (auto simp: first_by_id_user_None)
next
  case (Some r')
  then have "r' \<in> set rows" "row.id r' = i" by (auto dest: first_by_id_user_Some)
  with assms have "r' = r" by (auto simp: distinct_map dest: inj_onD)
  with Some show ?thesis by simp
qed

lemma delete_row_remove1:
  "distinct (map row.id rows) \<Longrightarrow> r \<in> set rows \<Longrightarrow> delete_row (row.id r) rows = remove1 r rows"
proof (induction rows)
  case Nil
  then show ?case by simp
next
  case (Cons a rows)
  show ?case
  proof (cases "a = r")
    case True
    have "\<forall>x\<in>set rows. row.id x \<noteq> row.id r"
      using Cons.prems(1) True by (auto simp: image_iff)
    then have "filter (\<lambda>x. row.id x \<noteq> row.id r) rows = rows"
      by (simp add: filter_id_conv)
    with True show ?thesis by (simp add: delete_row_def)
  next
    case False
    with Cons.prems have "r \<in> set rows" "row.id a \<noteq> row.id r"
      by (auto simp: image_iff)
    with Cons.IH Cons.prems(1) False show ?thesis
      by (simp add: delete_row_def)
  qed
qed

lemma distinct_rows: "distinct (map row.id rows) \<Longrightarrow> distinct rows"
  by (rule distinct_map [THEN iffD1, THEN conjunct1])

lemma set_remove1_row:
  "distinct (map row.id rows) \<Longrightarrow> set (remove1 r rows) = set rows - {r}"
  by (simp add: distinct_rows)

text \<open>
  Claim C5. For each JSON delete endpoint (expenses, incomes, goals, investments), on a
  database with unique primary keys: the call returns success if and only if a record with
  the given id owned by the requesting user exists; in that case exactly that record is
  removed from its table and nothing else changes; otherwise the call returns the
  not-found error with status 404 and the database is unchanged.
\<close>

theorem delete_endpoints:
  assumes "primary_keys d"
  shows
   "((fst (delete_expense d u i) = Json_success) =
       (\<exists>e\<in>set (db.expenses d). row.id e = i \<and> user_id e = user.id u)) \<and>
    (\<forall>e\<in>set (db.expenses d). row.id e = i \<and> user_id e = user.id u \<longrightarrow>
       delete_expense d u i = (Json_success, d\<lparr>db.expenses := remove1 e (db.expenses d)\<rparr>) \<and>
       set (remove1 e (db.expenses d)) = set (db.expenses d) - {e}) \<and>
    (\<not> (\<exists>e\<in>set (db.expenses d). row.id e = i \<and> user_id e = user.id u) \<longrightarrow>
       delete_expense d u i = (Json_error ''Expense not found'' 404, d)) \<and>
    ((fst (delete_income d u i) = Json_success) =
       (\<exists>e\<in>set (db.incomes d). row.id e = i \<and> user_id e = user.id u)) \<and>
    (\<forall>e\<in>set (db.incomes d). row.id e = i \<and> user_id e = user.id u \<longrightarrow>
       delete_income d u i = (Json_success, d\<lparr>db.incomes := remove1 e (db.incomes d)\<rparr>) \<and>
       set (remove1 e (db.incomes d)) = set (db.incomes d) - {e}) \<and>
    (\<not> (\<exists>e\<in>set (db.incomes d). row.id e = i \<and> user_id e = user.id u) \<longrightarrow>
       delete_income d u i = (Json_error ''Income not found'' 404, d)) \<and>
    ((fst (delete_goal d u i) = Json_success) =
       (\<exists>e\<in>set (db.goals d). row.id e = i \<and> user_id e = user.id u)) \<and>
    (\<forall>e\<in>set (db.goals d). row.id e = i \<and> user_id e = user.id u \<longrightarrow>
       delete_goal d u i = (Json_success, d\<lparr>db.goals := remove1 e (db.goals d)\<rparr>) \<and>
       set (remove1 e (db.goals d)) = set (db.goals d) - {e}) \<and>
    (\<not> (\<exists>e\<in>set (db.goals d). row.id e = i \<and> user_id e = user.id u) \<longrightarrow>
       delete_goal d u i = (Json_error ''Goal not found'' 404, d)) \<and>
    ((fst (delete_investment d u i) = Json_success) =
       (\<exists>e\<in>set (db.investments d). row.id e = i \<and> user_id e = user.id u)) \<and>
    (\<forall>e\<in>set (db.investments d). row.id e = i \<and> user_id e = user.id u \<longrightarrow>
       delete_investment d u i =
         (Json_success, d\<lparr>db.investments := remove1 e (db.investments d)\<rparr>) \<and>
       set (remove1 e (db.investments d)) = set (db.investments d) - {e}) \<and>
    (\<not> (\<exists>e\<in>set (db.investments d). row.id e = i \<and> user_id e = user.id u) \<longrightarrow>
       delete_investment d u i = (Json_error ''Investment not found'' 404, d))"
proof -
  have pk: "distinct (map row.id (db.expenses d))" "distinct (map row.id (db.incomes d))"
    "distinct (map row.id (db.goals d))" "distinct (map row.id (db.investments d))"
    using assms by (simp_all add: primary_keys_def)
  have e1: "(fst (delete_expense d u i) = Json_success) =
       (\<exists>e\<in>set (db.expenses d). row.id e = i \<and> user_id e = user.id u)"
    using first_by_id_user_None [of i "user.id u" "db.expenses d"]
    by (auto simp: delete_expense_def split: option.splits)
  have e2: "\<forall>e\<in>set (db.expenses d). row.id e = i \<and> user_id e = user.id u \<longrightarrow>
       delete_expense d u i = (Json_success, d\<lparr>db.expenses := remove1 e (db.expenses d)\<rparr>) \<and>
       set (remove1 e (db.expenses d)) = set (db.expenses d) - {e}"
    using pk(1)
    by (auto simp: delete_expense_def first_by_id_user_unique delete_row_remove1 distinct_rows)
  have e3: "\<not> (\<exists>e\<in>set (db.expenses d). row.id e = i \<and> user_id e = user.id u) \<longrightarrow>
       delete_expense d u i = (Json_error ''Expense not found'' 404, d)"
    using first_by_id_user_None [of i "user.id u" "db.expenses d"]
    by (auto simp: delete_expense_def)
  have i1: "(fst (delete_income d u i) = Json_success) =
       (\<exists>e\<in>set (db.incomes d). row.id e = i \<and> user_id e = user.id u)"
    using first_by_id_user_None [of i "user.id u" "db.incomes d"]
    by (auto simp: delete_income_def split: option.splits)
  have i2: "\<forall>e\<in>set (db.incomes d). row.id e = i \<and> user_id e = user.id u \<longrightarrow>
       delete_income d u i = (Json_success, d\<lparr>db.incomes := remove1 e (db.incomes d)\<rparr>) \<and>
       set (remove1 e (db.incomes d)) = set (db.incomes d) - {e}"
    using pk(2)
    by (auto simp: delete_income_def first_by_id_user_unique delete_row_remove1 distinct_rows)
  have i3: "\<not> (\<exists>e\<in>set (db.incomes d). row.id e = i \<and> user_id e = user.id u) \<longrightarrow>
       delete_income d u i = (Json_error ''Income not found'' 404, d)"
    using first_by_id_user_None [of i "user.id u" "db.incomes d"]
    by (auto simp: delete_income_def)
  have g1: "(fst (delete_goal d u i) = Json_success) =
       (\<exists>e\<in>set (db.goals d). row.id e = i \<and> user_id e = user.id u)"
    using first_by_id_user_None [of i "user.id u" "db.goals d"]
    by (auto simp: delete_goal_def split: option.splits)
  have g2: "\<forall>e\<in>set (db.goals d). row.id e = i \<and> user_id e = user.id u \<longrightarrow>
       delete_goal d u i = (Json_success, d\<lparr>db.goals := remove1 e (db.goals d)\<rparr>) \<and>
       set (remove1 e (db.goals d)) = set (db.goals d) - {e}"
    using pk(3)
    by (auto simp: delete_goal_def first_by_id_user_unique delete_row_remove1 distinct_rows)
  have g3: "\<not> (\<exists>e\<in>set (db.goals d). row.id e = i \<and> user_id e = user.id u) \<longrightarrow>
       delete_goal d u i = (Json_error ''Goal not found'' 404, d)"
    using first_by_id_user_None [of i "user.id u" "db.goals d"]
    by (auto simp: delete_goal_def)
  have v1: "(fst (delete_investment d u i) = Json_success) =
       (\<exists>e\<in>set (db.investments d). row.id e = i \<and> user_id e = user.id u)"
    using first_by_id_user_None [of i "user.id u" "db.investments d"]
    by (auto simp: delete_investment_def split: option.splits)
  have v2: "\<forall>e\<in>set (db.investments d). row.id e = i \<and> user_id e = user.id u \<longrightarrow>
       delete_investment d u i =
         (Json_success, d\<lparr>db.investments := remove1 e (db.investments d)\<rparr>) \<and>
       set (remove1 e (db.investments d)) = set (db.investments d) - {e}"
    using pk(4)
    by (auto simp: delete_investment_def first_by_id_user_unique delete_row_remove1 distinct_rows)
  have v3: "\<not> (\<exists>e\<in>set (db.investments d). row.id e = i \<and> user_id e = user.id u) \<longrightarrow>
       delete_investment d u i = (Json_error ''Investment not found'' 404, d)"
    using first_by_id_user_None [of i "user.id u" "db.investments d"]
    by (auto simp: delete_investment_def)
  from e1 e2 e3 i1 i2 i3 g1 g2 g3 v1 v2 v3 show ?thesis by blast
qed

text \<open>
  In the example database the first user deletes her own expense 1; expense 2 belongs to
  the other user and expense 9 does not exist.
\<close>

theorem delete_endpoints_witness:
  "primary_keys example_db \<and>
   delete_expense example_db alice 1 =
     (Json_success,
      example_db\<lparr>db.expenses :=
        [\<lparr>row.id = 2, user_id = 2, expense.description = ''Lunch'', expense.amount = 7,
          expense.category = ''Food'', expense.date = 4\<rparr>,
         \<lparr>row.id = 3, user_id = 1, expense.description = ''Vet'', expense.amount = 10,
          expense.category = ''Pets'', expense.date = 5\<rparr>]\<rparr>) \<and>
   delete_expense example_db alice 2 = (Json_error ''Expense not found'' 404, example_db) \<and>
   delete_expense example_db alice 9 = (Json_error ''Expense not found'' 404, example_db)"
proof -
  have pk: "primary_keys example_db"
    by (simp add: primary_keys_def example_db_def alice_def bob_def)
  show ?thesis
    using pk delete_endpoints [OF pk, of alice 1] delete_endpoints [OF pk, of alice 2]
      delete_endpoints [OF pk, of alice 9]
    by (simp add: example_db_def alice_def)
qed

section \<open>Ratios and suggestions\<close>

text \<open>Three of the four ratios are guarded by a test that their divisor is positive.\<close>

lemma ratio_suggestions_eq:
  "ratio_suggestions ti te =
     Inr (if ti > 0 then
            if te / ti > 0.9 then
              [\<lparr>title = ''Reduce Expenses'',
                description = (''Your expenses are {:.1f}% of your income. Aim to keep expenses below 70% of income.'',
                               [F1 (te / ti * 100)]),
                type = ''warning''\<rparr>]
            else if te / ti < 0.5 then
              [\<lparr>title = ''Great Savings Rate'',
                description = (''You're saving {:.1f}% of your income. Consider investing more for long-term growth.'',
                               [F1 ((1 - te / ti) * 100)]),
                type = ''success''\<rparr>]
            else []
          else [])"
  by (simp add: ratio_suggestions_def and_then_def py_div_def)

lemma goal_suggestion_returns: "\<exists>s. goal_suggestion g = Inr s"
  by (simp add: goal_suggestion_def and_then_def py_div_def Let_def)

lemma goal_suggestions_returns: "\<exists>s. goal_suggestions gs = Inr s"
proof (induction gs)
  case Nil
  show ?case by simp
next
  case (Cons g gs)
  from goal_suggestion_returns [of g] obtain s where "goal_suggestion g = Inr s" by blast
  moreover from Cons obtain ss where "goal_suggestions gs = Inr ss" by blast
  ultimately show ?case by (simp add: and_then_def)
qed

lemma budget_row_returns: "\<exists>r. budget_row budget_dict spending c = Inr r"
  by (simp add: budget_row_def and_then_def py_div_def Let_def)

lemma budget_data_returns: "\<exists>rs. budget_data budget_dict spending cs = Inr rs"
proof (induction cs)
  case Nil
  show ?case by simp
next
  case (Cons c cs)
  from budget_row_returns [of budget_dict spending c]
  obtain r where "budget_row budget_dict spending c = Inr r" by blast
  moreover from Cons obtain rs where "budget_data budget_dict spending cs = Inr rs" by blast
  ultimately show ?case by (simp add: and_then_def)
qed

text \<open>
  The share of the highest category is guarded by a comparison with 40% of the total,
  which a total of zero passes whenever the highest category is positive.
\<close>

lemma high_category_suggestions_raises:
  "high_category_suggestions (p # ps) te = Inl ZeroDivisionError \<longleftrightarrow>
     te = 0 \<and> snd (max_item p ps) > 0"
  by (auto simp: high_category_suggestions_def and_then_def py_div_def Let_def)

lemma suggestion_rules_raises:
  "suggestion_rules ti te (p # ps) gs invs = Inl ZeroDivisionError \<longleftrightarrow>
     te = 0 \<and> snd (max_item p ps) > 0"
proof -
  obtain s4 where s4: "goal_suggestions gs = Inr s4"
    using goal_suggestions_returns by blast
  show ?thesis
  proof (cases "high_category_suggestions (p # ps) te")
    case (Inl e')
    then have "te = 0 \<and> snd (max_item p ps) > 0"
      by (cases e') (simp add: high_category_suggestions_raises)
    with Inl show ?thesis
      by (cases e') (simp add: suggestion_rules_def ratio_suggestions_eq and_then_def)
  next
    case (Inr s3)
    then have "\<not> (te = 0 \<and> snd (max_item p ps) > 0)"
      using high_category_suggestions_raises [of p ps te] by auto
    with Inr s4 show ?thesis
      by (simp add: suggestion_rules_def ratio_suggestions_eq and_then_def Let_def)
  qed
qed

text \<open>
  Claim C6, at a failing input. The user of \<open>refund_db\<close> has an expense of 5 in \<open>Food\<close> and
  an expense of -5 in \<open>Housing\<close>: the total is 0, the highest category holds 5, the guard
  \<open>5 > 0 * 0.4\<close> passes and the share \<open>5 / 0\<close> raises \<^verbatim>\<open>ZeroDivisionError\<close>.
\<close>

theorem high_category_share_divides_by_zero:
  "suggestions refund_db alice = Inl ZeroDivisionError"
  by (simp add: suggestions_def refund_db_def alice_def filter_by_user_def py_sum_def
        group_by_category_def suggestion_rules_def ratio_suggestions_eq
        high_category_suggestions_def and_then_def py_div_def Let_def)

text \<open>The titles the other rules produce.\<close>

lemma investment_suggestions_titles:
  "s \<in> set (investment_suggestions invs) \<Longrightarrow>
   title s = ''Start an Emergency Fund'' \<or> title s = ''Diversify Investments''"
  by (auto simp: investment_suggestions_def Let_def split: if_splits)

lemma high_category_suggestions_titles:
  "high_category_suggestions ebc te = Inr ss \<Longrightarrow> s \<in> set ss \<Longrightarrow>
   \<exists>c. title s = ''High '' @ c @ '' Expenses''"
  by (auto simp: high_category_suggestions_def and_then_def py_div_def Let_def
        split: list.splits if_splits)

lemma goal_suggestion_titles:
  "goal_suggestion g = Inr ss \<Longrightarrow> s \<in> set ss \<Longrightarrow> \<exists>n. title s = ''Goal: '' @ n"
  by (auto simp: goal_suggestion_def and_then_def py_div_def Let_def split: if_splits)

lemma goal_suggestions_titles:
  "goal_suggestions gs = Inr ss \<Longrightarrow> s \<in> set ss \<Longrightarrow> \<exists>n. title s = ''Goal: '' @ n"
proof (induction gs arbitrary: ss)
  case Nil
  then show ?case by simp
next
  case (Cons g gs)
  from Cons.prems(1) obtain s1 s2 where
    parts: "goal_suggestion g = Inr s1" "goal_suggestions gs = Inr s2" "ss = s1 @ s2"
    by (auto simp: and_then_def split: sum.splits)
  with Cons.prems(2) have "s \<in> set s1 \<or> s \<in> set s2" by simp
  then show ?case
    using goal_suggestion_titles [OF parts(1)] Cons.IH [OF parts(2)] by blast
qed

lemma default_suggestions_titles:
  "s \<in> set default_suggestions \<Longrightarrow>
   title s = ''Track Your Expenses'' \<or> title s = ''Set Financial Goals'' \<or>
   title s = ''Create a Budget''"
  by (auto simp: default_suggestions_def)

text \<open>
  Which of the two ratio suggestions a rendered page holds is decided by the ratio rule
  alone.
\<close>

lemma suggestion_rules_ratio_titles:
  assumes "suggestion_rules ti te ebc gs invs = Inr page"
    and "t = ''Reduce Expenses'' \<or> t = ''Great Savings Rate''"
  shows "(\<exists>s\<in>set page. title s = t) \<longleftrightarrow>
         (\<exists>s1. ratio_suggestions ti te = Inr s1 \<and> (\<exists>s\<in>set s1. title s = t))"
proof -
  obtain s1 where s1: "ratio_suggestions ti te = Inr s1"
    by (simp add: ratio_suggestions_eq)
  from assms(1) s1 obtain s3 s4 where
    s3: "high_category_suggestions ebc te = Inr s3" and
    s4: "goal_suggestions gs = Inr s4" and
    page: "page = (if s1 @ investment_suggestions invs @ s3 @ s4 = [] then default_suggestions
                   else s1 @ investment_suggestions invs @ s3 @ s4)"
    by (auto simp: suggestion_rules_def and_then_def Let_def split: sum.splits)
  have other: "title s \<noteq> t"
    if "s \<in> set (investment_suggestions invs) \<or> s \<in> set s3 \<or> s \<in> set s4 \<or>
        s \<in> set default_suggestions" for s
    using that assms(2) investment_suggestions_titles [of s invs]
      high_category_suggestions_titles [OF s3, of s] goal_suggestions_titles [OF s4, of s]
      default_suggestions_titles [of s]
    by auto
  have s1_default: "s1 = [] \<or> s1 @ investment_suggestions invs @ s3 @ s4 \<noteq> []"
    by simp
  have "(\<exists>s\<in>set page. title s = t) \<longleftrightarrow> (\<exists>s\<in>set s1. title s = t)"
  proof
    assume "\<exists>s\<in>set page. title s = t"
    then obtain s where s: "s \<in> set page" "title s = t" by blast
    then have "s \<in> set s1 \<or> s \<in> set (investment_suggestions invs) \<or> s \<in> set s3 \<or>
               s \<in> set s4 \<or> s \<in> set default_suggestions"
      unfolding page by (auto split: if_splits)
    with other s(2) have "s \<in> set s1" by blast
    with s(2) show "\<exists>s\<in>set s1. title s = t" by blast
  next
    assume "\<exists>s\<in>set s1. title s = t"
    then obtain s where s: "s \<in> set s1" "title s = t" by blast
    then have "s1 \<noteq> []" by auto
    then have "page = s1 @ investment_suggestions invs @ s3 @ s4"
      unfolding page by simp
    with s show "\<exists>s\<in>set page. title s = t" by auto
  qed
  with s1 show ?thesis by simp
qed

text \<open>
  On every rendered suggestions page: when the user's total income is positive, the page
  holds the \<open>Reduce Expenses\<close> warning if and only if total expenses divided by total
  income exceed 0.9, and the \<open>Great Savings Rate\<close> suggestion if and only if that ratio is
  below 0.5; when the total income is 0 the page holds neither.
\<close>

lemma rendered_page_ratio_rule:
  assumes "suggestions d u = Inr page"
  shows
   "(0 < sum_list (map income.amount (filter_by_user (user.id u) (db.incomes d))) \<longrightarrow>
      ((\<exists>s\<in>set page. title s = ''Reduce Expenses'') \<longleftrightarrow>
         sum_list (map expense.amount (filter_by_user (user.id u) (db.expenses d))) /
         sum_list (map income.amount (filter_by_user (user.id u) (db.incomes d))) > 0.9) \<and>
      ((\<exists>s\<in>set page. title s = ''Great Savings Rate'') \<longleftrightarrow>
         sum_list (map expense.amount (filter_by_user (user.id u) (db.expenses d))) /
         sum_list (map income.amount (filter_by_user (user.id u) (db.incomes d))) < 0.5)) \<and>
    (sum_list (map income.amount (filter_by_user (user.id u) (db.incomes d))) = 0 \<longrightarrow>
      \<not> (\<exists>s\<in>set page. title s = ''Reduce Expenses'') \<and>
      \<not> (\<exists>s\<in>set page. title s = ''Great Savings Rate''))"
proof -
  let ?ti = "sum_list (map income.amount (filter_by_user (user.id u) (db.incomes d)))"
  let ?te = "sum_list (map expense.amount (filter_by_user (user.id u) (db.expenses d)))"
  from assms obtain ebc gs invs where
    rules: "suggestion_rules ?ti ?te ebc gs invs = Inr page"
    by (simp add: suggestions_def Let_def py_sum_sum_list)
  note r = suggestion_rules_ratio_titles [OF rules]
  have reduce: "(\<exists>s\<in>set page. title s = ''Reduce Expenses'') \<longleftrightarrow> 0 < ?ti \<and> ?te / ?ti > 0.9"
    using r [of "''Reduce Expenses''"] by (simp add: ratio_suggestions_eq)
  have great: "(\<exists>s\<in>set page. title s = ''Great Savings Rate'') \<longleftrightarrow>
               0 < ?ti \<and> \<not> ?te / ?ti > 0.9 \<and> ?te / ?ti < 0.5"
    using r [of "''Great Savings Rate''"] by (simp add: ratio_suggestions_eq)
  have "?te / ?ti < 0.5 \<Longrightarrow> \<not> ?te / ?ti > 0.9"
    by (rule notI, drule (1) less_trans) simp
  then have great': "(\<exists>s\<in>set page. title s = ''Great Savings Rate'') \<longleftrightarrow>
               0 < ?ti \<and> ?te / ?ti < 0.5"
    unfolding great by blast
  show ?thesis
    unfolding reduce great' by auto
qed

text \<open>
  The request fails only in the high category rule, and only when the total of the
  expenses is 0; a \<open>Reduce Expenses\<close> warning that is due is therefore always rendered.
\<close>

lemma suggestion_rules_returns:
  assumes "te \<noteq> 0"
  shows "\<exists>page. suggestion_rules ti te ebc gs invs = Inr page"
proof (cases ebc)
  case Nil
  obtain s4 where "goal_suggestions gs = Inr s4"
    using goal_suggestions_returns by blast
  with Nil show ?thesis
    by (simp add: suggestion_rules_def ratio_suggestions_eq high_category_suggestions_def
          and_then_def Let_def)
next
  case (Cons p ps)
  show ?thesis
  proof (cases "suggestion_rules ti te ebc gs invs")
    case (Inl e)
    then have "suggestion_rules ti te (p # ps) gs invs = Inl ZeroDivisionError"
      using Cons by (cases e) simp
    with assms show ?thesis by (simp add: suggestion_rules_raises)
  next
    case (Inr page)
    then show ?thesis by blast
  qed
qed

lemma reduce_expenses_rendered:
  assumes "0 < sum_list (map income.amount (filter_by_user (user.id u) (db.incomes d)))"
    and "sum_list (map expense.amount (filter_by_user (user.id u) (db.expenses d))) /
         sum_list (map income.amount (filter_by_user (user.id u) (db.incomes d))) > 0.9"
  shows "\<exists>page. suggestions d u = Inr page \<and> (\<exists>s\<in>set page. title s = ''Reduce Expenses'')"
proof -
  let ?ti = "sum_list (map income.amount (filter_by_user (user.id u) (db.incomes d)))"
  let ?te = "sum_list (map expense.amount (filter_by_user (user.id u) (db.expenses d)))"
  have te: "?te \<noteq> 0" using assms by auto
  have "suggestions d u =
        suggestion_rules ?ti ?te
          (group_by_category
             (map (\<lambda>e. (expense.category e, expense.amount e))
                (filter_by_user (user.id u) (db.expenses d))))
          (filter_by_user (user.id u) (db.goals d))
          (filter_by_user (user.id u) (db.investments d))"
    by (simp add: suggestions_def Let_def py_sum_sum_list)
  with suggestion_rules_returns [OF te] obtain page where page: "suggestions d u = Inr page"
    by metis
  from rendered_page_ratio_rule [OF page] assms
  have "\<exists>s\<in>set page. title s = ''Reduce Expenses''" by blast
  with page show ?thesis by blast
qed

text \<open>
  Claim C7, at a failing input. The user of \<open>refund_db\<close> has an income of 10 and expenses
  of 5 and -5: the total income is positive, the ratio of expenses to income is 0, which
  is below 0.5, and the ratio rule yields \<open>Great Savings Rate\<close>; the request then fails
  with \<^verbatim>\<open>ZeroDivisionError\<close> in the high category rule, so no suggestions page is produced
  and none holds the suggestion.
\<close>

theorem great_savings_rate_lost_to_division_by_zero:
  "py_sum (map income.amount (filter_by_user (user.id alice) (db.incomes refund_db))) = 10 \<and>
   py_sum (map expense.amount (filter_by_user (user.id alice) (db.expenses refund_db))) = 0 \<and>
   (0::real) / 10 < 0.5 \<and>
   map title (projr (ratio_suggestions 10 0)) = [''Great Savings Rate''] \<and>
   handle refund_db alice 3 Get_suggestions = (Internal_error ZeroDivisionError, refund_db)"
  by (simp add: suggestions_def refund_db_def alice_def filter_by_user_def py_sum_def
        group_by_category_def suggestion_rules_def ratio_suggestions_eq
        high_category_suggestions_def and_then_def py_div_def Let_def)

section \<open>Fresh primary keys\<close>

lemma foldr_max_ge: "x \<in> set xs \<Longrightarrow> x \<le> foldr max xs (0::nat)"
  by (induction xs) auto

lemma next_id_fresh: "r \<in> set rows \<Longrightarrow> row.id r < next_id rows"
  using foldr_max_ge [of "row.id r" "map row.id rows"] by (simp add: next_id_def less_Suc_eq_le)

lemma next_id_not_used: "next_id rows \<notin> row.id ` set rows"
  using next_id_fresh by fastforce

lemma next_user_id_fresh: "u \<in> set us \<Longrightarrow> user.id u < next_user_id us"
  using foldr_max_ge [of "user.id u" "map user.id us"]
  by (simp add: next_user_id_def less_Suc_eq_le)

lemma next_user_id_not_used: "next_user_id us \<notin> user.id ` set us"
  using next_user_id_fresh by fastforce

section \<open>Registration\<close>

text \<open>The loop that gives a new user one budget of amount 0 per default category.\<close>

lemma default_budgets_loop:
  "\<exists>nb. foldl (\<lambda>rows c. rows @ [\<lparr>row.id = next_id rows, user_id = uid,
                                    budget.category = c, budget.amount = 0\<rparr>]) rows cs
         = rows @ nb \<and>
        map budget.category nb = cs \<and>
        (\<forall>b\<in>set nb. budget.amount b = 0 \<and> user_id b = uid) \<and>
        (distinct (map row.id rows) \<longrightarrow> distinct (map row.id (rows @ nb)))"
proof (induction cs arbitrary: rows)
  case Nil
  show ?case by simp
next
  case (Cons c cs)
  let ?b = "\<lparr>row.id = next_id rows, user_id = uid, budget.category = c, budget.amount = 0\<rparr>"
  from Cons [of "rows @ [?b]"] obtain nb where nb:
    "foldl (\<lambda>rows c. rows @ [\<lparr>row.id = next_id rows, user_id = uid,
                               budget.category = c, budget.amount = 0\<rparr>]) (rows @ [?b]) cs
       = (rows @ [?b]) @ nb"
    "map budget.category nb = cs"
    "\<forall>b\<in>set nb. budget.amount b = 0 \<and> user_id b = uid"
    "distinct (map row.id (rows @ [?b])) \<longrightarrow> distinct (map row.id ((rows @ [?b]) @ nb))"
    by blast
  have fresh: "distinct (map row.id rows) \<Longrightarrow> distinct (map row.id (rows @ [?b]))"
    using next_id_not_used [of rows] by simp
  show ?case
  proof (intro exI [of _ "?b # nb"] conjI)
    show "foldl (\<lambda>rows c. rows @ [\<lparr>row.id = next_id rows, user_id = uid,
                               budget.category = c, budget.amount = 0\<rparr>]) rows (c # cs)
          = rows @ ?b # nb"
      using nb(1) by simp
    show "map budget.category (?b # nb) = c # cs" using nb(2) by simp
    show "\<forall>b\<in>set (?b # nb). budget.amount b = 0 \<and> user_id b = uid" using nb(3) by simp
    show "distinct (map row.id rows) \<longrightarrow> distinct (map row.id (rows @ ?b # nb))"
      using nb(4) fresh by simp
  qed
qed

lemma default_expense_categories_14:
  "length default_expense_categories = 14 \<and> distinct default_expense_categories"
  by (simp add: default_expense_categories_def)

lemma find_username_None:
  "(List.find (\<lambda>u. user.username u = n) us = None) = (\<not> (\<exists>u\<in>set us. user.username u = n))"
  by (auto simp: find_None_iff)

lemma find_email_None:
  "(List.find (\<lambda>u. user.email u = n) us = None) = (\<not> (\<exists>u\<in>set us. user.email u = n))"
  by (auto simp: find_None_iff)

text \<open>
  Claim C8, as amended. For a visitor who is not logged in and submits the registration form:
  registration succeeds if and only if neither the submitted user name nor the submitted
  e-mail address belongs to a stored user. On failure the database is unchanged. On
  success exactly one user is added, with a fresh id and the submitted name and address,
  together with exactly one budget per default expense category (14 in all, with fresh
  ids), each of amount 0 and owned by the new user; no other table changes.
\<close>

theorem registration:
  assumes "current_user d s = None"
  shows
   "((fst (register generate_password_hash d s (Some f)) =
        Redirect ''login'' (Some ''Registration successful! Please log in.'')) =
     (\<not> (\<exists>u\<in>set (db.users d). user.username u = register_form.username f) \<and>
      \<not> (\<exists>u\<in>set (db.users d). user.email u = register_form.email f))) \<and>
    ((\<exists>u\<in>set (db.users d). user.username u = register_form.username f) \<or>
     (\<exists>u\<in>set (db.users d). user.email u = register_form.email f) \<longrightarrow>
       snd (register generate_password_hash d s (Some f)) = d \<and>
       (\<exists>m. fst (register generate_password_hash d s (Some f)) = Render_register (Some m))) \<and>
    (\<not> (\<exists>u\<in>set (db.users d). user.username u = register_form.username f) \<and>
     \<not> (\<exists>u\<in>set (db.users d). user.email u = register_form.email f) \<longrightarrow>
       (\<exists>new_user nb.
          snd (register generate_password_hash d s (Some f)) =
            d\<lparr>db.users := db.users d @ [new_user], db.budgets := db.budgets d @ nb\<rparr> \<and>
          user.id new_user \<notin> user.id ` set (db.users d) \<and>
          user.username new_user = register_form.username f \<and>
          user.email new_user = register_form.email f \<and>
          user.password_hash new_user = generate_password_hash (register_form.password f) \<and>
          map budget.category nb = default_expense_categories \<and>
          length nb = 14 \<and>
          distinct (map budget.category nb) \<and>
          (\<forall>b\<in>set nb. budget.amount b = 0 \<and> user_id b = user.id new_user) \<and>
          (distinct (map row.id (db.budgets d)) \<longrightarrow>
             distinct (map row.id (db.budgets d @ nb)))))"
proof -
  let ?r = "register generate_password_hash d s (Some f)"
  let ?taken = "(\<exists>u\<in>set (db.users d). user.username u = register_form.username f) \<or>
                (\<exists>u\<in>set (db.users d). user.email u = register_form.email f)"
  have fail: "snd ?r = d \<and> (\<exists>m. fst ?r = Render_register (Some m))" if ?taken
    using that assms
    by (auto simp: register_def find_username_None find_email_None)
  let ?new = "\<lparr>user.id = next_user_id (db.users d),
               user.username = register_form.username f,
               user.email = register_form.email f,
               user.password_hash = generate_password_hash (register_form.password f)\<rparr>"
  from default_budgets_loop [of "user.id ?new" "db.budgets d" default_expense_categories]
  obtain nb where nb:
    "foldl (\<lambda>rows c. rows @ [\<lparr>row.id = next_id rows, user_id = user.id ?new,
                               budget.category = c, budget.amount = 0\<rparr>])
       (db.budgets d) default_expense_categories = db.budgets d @ nb"
    "map budget.category nb = default_expense_categories"
    "\<forall>b\<in>set nb. budget.amount b = 0 \<and> user_id b = user.id ?new"
    "distinct (map row.id (db.budgets d)) \<longrightarrow> distinct (map row.id (db.budgets d @ nb))"
    by blast
  have len: "length nb = 14" "distinct (map budget.category nb)"
    using nb(2) default_expense_categories_14 length_map [of budget.category nb] by simp_all
  have ok: "fst ?r = Redirect ''login'' (Some ''Registration successful! Please log in.'') \<and>
            snd ?r = d\<lparr>db.users := db.users d @ [?new], db.budgets := db.budgets d @ nb\<rparr>"
    if "\<not> ?taken"
    using that assms nb(1)
    by (simp add: register_def find_username_None find_email_None Let_def)
  have c1: "(fst ?r = Redirect ''login'' (Some ''Registration successful! Please log in.'')) =
            (\<not> ?taken)"
    using fail ok by (cases ?taken) auto
  have c3: "\<exists>new_user nb.
          snd ?r = d\<lparr>db.users := db.users d @ [new_user], db.budgets := db.budgets d @ nb\<rparr> \<and>
          user.id new_user \<notin> user.id ` set (db.users d) \<and>
          user.username new_user = register_form.username f \<and>
          user.email new_user = register_form.email f \<and>
          user.password_hash new_user = generate_password_hash (register_form.password f) \<and>
          map budget.category nb = default_expense_categories \<and>
          length nb = 14 \<and>
          distinct (map budget.category nb) \<and>
          (\<forall>b\<in>set nb. budget.amount b = 0 \<and> user_id b = user.id new_user) \<and>
          (distinct (map row.id (db.budgets d)) \<longrightarrow>
             distinct (map row.id (db.budgets d @ nb)))"
    if "\<not> ?taken"
  proof (intro exI [of _ ?new] exI [of _ nb] conjI)
    show "snd ?r = d\<lparr>db.users := db.users d @ [?new], db.budgets := db.budgets d @ nb\<rparr>"
      using ok [OF that] by simp
    show "user.id ?new \<notin> user.id ` set (db.users d)"
      using next_user_id_not_used [of "db.users d"] by simp
  qed (use nb len in simp_all)
  from c1 fail c3 show ?thesis by blast
qed

text \<open>
  In the example database a visitor registers as \<open>carol\<close>; a second visitor who asks for
  the taken name \<open>alice\<close> changes nothing.
\<close>

theorem registration_witness:
  "current_user example_db anonymous = None \<and>
   fst (register (\<lambda>p. ''pbkdf2:'' @ p) example_db anonymous
          (Some \<lparr>register_form.username = ''carol'', register_form.email = ''carol@example.org'',
                 register_form.password = ''secret''\<rparr>)) =
     Redirect ''login'' (Some ''Registration successful! Please log in.'') \<and>
   length (db.users (snd (register (\<lambda>p. ''pbkdf2:'' @ p) example_db anonymous
          (Some \<lparr>register_form.username = ''carol'', register_form.email = ''carol@example.org'',
                 register_form.password = ''secret''\<rparr>)))) = 3 \<and>
   length (db.budgets (snd (register (\<lambda>p. ''pbkdf2:'' @ p) example_db anonymous
          (Some \<lparr>register_form.username = ''carol'', register_form.email = ''carol@example.org'',
                 register_form.password = ''secret''\<rparr>)))) = 16 \<and>
   snd (register (\<lambda>p. ''pbkdf2:'' @ p) example_db anonymous
          (Some \<lparr>register_form.username = ''alice'', register_form.email = ''a@example.org'',
                 register_form.password = ''secret''\<rparr>)) = example_db"
proof -
  have anon: "current_user example_db anonymous = None"
    by (simp add: current_user_def anonymous_def)
  have free: "\<not> (\<exists>u\<in>set (db.users example_db). user.username u = ''carol'')"
    "\<not> (\<exists>u\<in>set (db.users example_db). user.email u = ''carol@example.org'')"
    by (simp_all add: example_db_def alice_def bob_def)
  have taken: "\<exists>u\<in>set (db.users example_db). user.username u = ''alice''"
    by (simp add: example_db_def alice_def)
  have two: "length (db.users example_db) = 2" "length (db.budgets example_db) = 2"
    by (simp_all add: example_db_def)
  from registration [OF anon, of "\<lambda>p. ''pbkdf2:'' @ p"
      "\<lparr>register_form.username = ''carol'', register_form.email = ''carol@example.org'',
        register_form.password = ''secret''\<rparr>"] free
  have carol:
    "fst (register (\<lambda>p. ''pbkdf2:'' @ p) example_db anonymous
          (Some \<lparr>register_form.username = ''carol'', register_form.email = ''carol@example.org'',
                 register_form.password = ''secret''\<rparr>)) =
       Redirect ''login'' (Some ''Registration successful! Please log in.'')"
    "\<exists>new_user nb. snd (register (\<lambda>p. ''pbkdf2:'' @ p) example_db anonymous
          (Some \<lparr>register_form.username = ''carol'', register_form.email = ''carol@example.org'',
                 register_form.password = ''secret''\<rparr>)) =
       example_db\<lparr>db.users := db.users example_db @ [new_user],
                   db.budgets := db.budgets example_db @ nb\<rparr> \<and> length nb = 14"
    by auto
  from registration [OF anon, of "\<lambda>p. ''pbkdf2:'' @ p"
      "\<lparr>register_form.username = ''alice'', register_form.email = ''a@example.org'',
        register_form.password = ''secret''\<rparr>"] taken
  have alice: "snd (register (\<lambda>p. ''pbkdf2:'' @ p) example_db anonymous
          (Some \<lparr>register_form.username = ''alice'', register_form.email = ''a@example.org'',
                 register_form.password = ''secret''\<rparr>)) = example_db"
    by auto
  from carol(2) obtain new_user nb where
    "snd (register (\<lambda>p. ''pbkdf2:'' @ p) example_db anonymous
          (Some \<lparr>register_form.username = ''carol'', register_form.email = ''carol@example.org'',
                 register_form.password = ''secret''\<rparr>)) =
       example_db\<lparr>db.users := db.users example_db @ [new_user],
                   db.budgets := db.budgets example_db @ nb\<rparr>" "length nb = 14"
    by blast
  with two anon carol(1) alice show ?thesis by simp
qed

lemma register_when_logged_in:
  "current_user d s \<noteq> None \<Longrightarrow>
   register generate_password_hash d s post = (Redirect ''index'' None, d)"
  by (simp add: register_def)

text \<open>
  Counterexample to claim C8 as stated. A caller who is logged in is sent to the index
  page and nothing is created, whatever the form holds: in the example database the first user, logged in, submits the free
  name \<open>carol\<close> with a free address, and registration does not succeed.
\<close>

theorem registration_refused_when_logged_in:
  "''carol'' \<notin> set (map user.username (db.users example_db)) \<and>
   ''carol@example.org'' \<notin> set (map user.email (db.users example_db)) \<and>
   current_user example_db alice_session = Some alice \<and>
   register (\<lambda>p. ''pbkdf2:'' @ p) example_db alice_session
     (Some \<lparr>register_form.username = ''carol'', register_form.email = ''carol@example.org'',
            register_form.password = ''secret''\<rparr>) =
     (Redirect ''index'' None, example_db)"
proof -
  have cur: "current_user example_db alice_session = Some alice"
    by (simp add: current_user_def load_user_def alice_session_def example_db_def alice_def)
  have free: "''carol'' \<notin> set (map user.username (db.users example_db))"
    "''carol@example.org'' \<notin> set (map user.email (db.users example_db))"
    by (simp_all add: example_db_def alice_def bob_def)
  from cur free show ?thesis by (simp add: register_when_logged_in)
qed

section \<open>Login\<close>

lemma find_unique_username:
  assumes "distinct (map user.username us)" "u \<in> set us"
  shows "List.find (\<lambda>v. user.username v = user.username u) us = Some u"
  using assms
proof (induction us)
  case Nil
  then show ?case by simp
next
  case (Cons a us)
  then show ?case by (cases "a = u") (auto simp: image_iff)
qed

lemma load_user_unique:
  assumes "distinct (map user.id (db.users d))" "u \<in> set (db.users d)"
  shows "load_user d (user.id u) = Some u"
  using assms unfolding load_user_def
proof (induction "db.users d" arbitrary: d)
  case Nil
  then show ?case by simp
next
  case (Cons a us)
  from Cons.hyps(2) [symmetric] Cons.prems show ?case
  proof (cases "a = u")
    case True
    with Cons.hyps(2) [symmetric] show ?thesis by simp
  next
    case False
    with Cons.hyps(2) [symmetric] Cons.prems have "u \<in> set us" "user.id a \<noteq> user.id u"
      by (auto simp: image_iff)
    moreover have "List.find (\<lambda>v. user.id v = user.id u) us = Some u"
      using Cons.hyps(1) [of "d\<lparr>db.users := us\<rparr>"] Cons.hyps(2) [symmetric] Cons.prems
        \<open>u \<in> set us\<close>
      by simp
    ultimately show ?thesis using Cons.hyps(2) [symmetric] by simp
  qed
qed

lemma load_user_None: "load_user d i = None \<Longrightarrow> u \<in> set (db.users d) \<Longrightarrow> user.id u \<noteq> i"
  by (auto simp: load_user_def find_None_iff)

text \<open>
  Claim C9, as amended. For a visitor who is not logged in and submits the login form, on a user table
  with unique ids and unique user names: the session identity of a stored user \<open>u\<close> is
  established if and only if \<open>u\<close> has the submitted user name and the submitted password
  matches the stored password hash of \<open>u\<close>; on any other input the handler answers with the
  invalid-credentials page, leaves the session as it was, and no identity is established.
\<close>

theorem login_establishes_identity:
  assumes "current_user d s = None"
    and "distinct (map user.id (db.users d))"
    and "distinct (map user.username (db.users d))"
  shows
   "(\<forall>u\<in>set (db.users d).
       (current_user d (snd (login check_password_hash d s (Some f))) = Some u) =
       (user.username u = login_form.username f \<and>
        check_password_hash (user.password_hash u) (login_form.password f))) \<and>
    (\<forall>u\<in>set (db.users d).
       user.username u = login_form.username f \<and>
       check_password_hash (user.password_hash u) (login_form.password f) \<longrightarrow>
       login check_password_hash d s (Some f) =
         (Redirect ''index'' (Some ''Login successful!''),
          s\<lparr>login_id := Some (user.id u), session.username := Some (user.username u)\<rparr>)) \<and>
    (\<not> (\<exists>u\<in>set (db.users d).
          user.username u = login_form.username f \<and>
          check_password_hash (user.password_hash u) (login_form.password f)) \<longrightarrow>
       login check_password_hash d s (Some f) =
         (Render_login (Some ''Invalid username or password''), s) \<and>
       current_user d (snd (login check_password_hash d s (Some f))) = None)"
proof -
  let ?l = "login check_password_hash d s (Some f)"
  let ?ok = "\<lambda>u. user.username u = login_form.username f \<and>
                  check_password_hash (user.password_hash u) (login_form.password f)"
  have good: "?l = (Redirect ''index'' (Some ''Login successful!''),
          s\<lparr>login_id := Some (user.id u), session.username := Some (user.username u)\<rparr>)"
    if "u \<in> set (db.users d)" "?ok u" for u
  proof -
    have "List.find (\<lambda>v. user.username v = login_form.username f) (db.users d) = Some u"
      using find_unique_username [OF assms(3) that(1)] that(2) by simp
    with that(2) assms(1) show ?thesis by (simp add: login_def)
  qed
  have bad: "?l = (Render_login (Some ''Invalid username or password''), s)"
    if "\<not> (\<exists>u\<in>set (db.users d). ?ok u)"
  proof (cases "List.find (\<lambda>v. user.username v = login_form.username f) (db.users d)")
    case None
    with assms(1) show ?thesis by (simp add: login_def)
  next
    case (Some v)
    then have "v \<in> set (db.users d)" "user.username v = login_form.username f"
      by (auto simp: find_Some_iff)
    with that have "\<not> check_password_hash (user.password_hash v) (login_form.password f)"
      by blast
    with Some assms(1) show ?thesis by (simp add: login_def)
  qed
  have ident: "(current_user d (snd ?l) = Some u) = ?ok u" if u: "u \<in> set (db.users d)" for u
  proof (cases "\<exists>v\<in>set (db.users d). ?ok v")
    case True
    then obtain v where v: "v \<in> set (db.users d)" "?ok v" by blast
    have cur: "current_user d (snd ?l) = Some v"
      using good [OF v] load_user_unique [OF assms(2) v(1)] by (simp add: current_user_def)
    show ?thesis
    proof
      assume "current_user d (snd ?l) = Some u"
      with cur have "u = v" by simp
      with v(2) show "?ok u" by simp
    next
      assume "?ok u"
      with v(2) have "user.username u = user.username v" by simp
      with assms(3) u v(1) have "u = v" by (auto simp: distinct_map dest: inj_onD)
      with cur show "current_user d (snd ?l) = Some u" by simp
    qed
  next
    case False
    with bad assms(1) u show ?thesis by auto
  qed
  from good bad ident assms(1) show ?thesis by auto
qed

text \<open>
  In the example database, with a password check that accepts \<open>secret\<close> for the hash
  \<open>hash-a\<close> only, the first user logs in with \<open>secret\<close> and not with \<open>guess\<close>.
\<close>

theorem login_establishes_identity_witness:
  "current_user example_db anonymous = None \<and>
   distinct (map user.id (db.users example_db)) \<and>
   distinct (map user.username (db.users example_db)) \<and>
   current_user example_db
     (snd (login (\<lambda>h p. h = ''hash-a'' \<and> p = ''secret'') example_db anonymous
        (Some \<lparr>login_form.username = ''alice'', login_form.password = ''secret''\<rparr>))) =
     Some alice \<and>
   login (\<lambda>h p. h = ''hash-a'' \<and> p = ''secret'') example_db anonymous
        (Some \<lparr>login_form.username = ''alice'', login_form.password = ''guess''\<rparr>) =
     (Render_login (Some ''Invalid username or password''), anonymous)"
proof -
  have h: "current_user example_db anonymous = None"
    "distinct (map user.id (db.users example_db))"
    "distinct (map user.username (db.users example_db))"
    by (simp_all add: current_user_def anonymous_def example_db_def alice_def bob_def)
  have a: "alice \<in> set (db.users example_db)" by (simp add: example_db_def)
  have ok: "user.username alice = ''alice'' \<and> user.password_hash alice = ''hash-a''"
    by (simp add: alice_def)
  have none: "\<not> (\<exists>u\<in>set (db.users example_db).
      user.username u = ''alice'' \<and> user.password_hash u = ''hash-a'' \<and> ''guess'' = ''secret'')"
    by simp
  from login_establishes_identity [OF h, of "\<lambda>h p. h = ''hash-a'' \<and> p = ''secret''"
        "\<lparr>login_form.username = ''alice'', login_form.password = ''secret''\<rparr>"] a ok
  have good: "current_user example_db
     (snd (login (\<lambda>h p. h = ''hash-a'' \<and> p = ''secret'') example_db anonymous
        (Some \<lparr>login_form.username = ''alice'', login_form.password = ''secret''\<rparr>))) =
     Some alice"
    by auto
  from login_establishes_identity [OF h, of "\<lambda>h p. h = ''hash-a'' \<and> p = ''secret''"
        "\<lparr>login_form.username = ''alice'', login_form.password = ''guess''\<rparr>"] none
  have bad: "login (\<lambda>h p. h = ''hash-a'' \<and> p = ''secret'') example_db anonymous
        (Some \<lparr>login_form.username = ''alice'', login_form.password = ''guess''\<rparr>) =
     (Render_login (Some ''Invalid username or password''), anonymous)"
    by simp
  from h good bad show ?thesis by blast
qed

lemma login_when_logged_in:
  "current_user d s \<noteq> None \<Longrightarrow> login check_password_hash d s post = (Redirect ''index'' None, s)"
  by (simp add: login_def)

text \<open>
  Counterexample to claim C9 as stated. A caller who is logged in is sent to the index
  page and the session stays as it was, whatever the credentials: in the example database the first user, logged in, submits
  the second user's name with a password the check accepts, and then with one it rejects.
  Neither is the second user's identity established nor is the invalid-credentials page
  returned.
\<close>

theorem login_ignored_when_logged_in:
  "current_user example_db alice_session = Some alice \<and>
   bob \<in> set (db.users example_db) \<and>
   user.username bob = ''bob'' \<and>
   user.password_hash bob = ''hash-b'' \<and>
   login (\<lambda>h p. h = ''hash-b'' \<and> p = ''secret'') example_db alice_session
     (Some \<lparr>login_form.username = ''bob'', login_form.password = ''secret''\<rparr>) =
     (Redirect ''index'' None, alice_session) \<and>
   login (\<lambda>h p. h = ''hash-b'' \<and> p = ''secret'') example_db alice_session
     (Some \<lparr>login_form.username = ''bob'', login_form.password = ''guess''\<rparr>) =
     (Redirect ''index'' None, alice_session)"
proof -
  have cur: "current_user example_db alice_session = Some alice"
    by (simp add: current_user_def load_user_def alice_session_def example_db_def alice_def)
  have b: "bob \<in> set (db.users example_db)" "user.username bob = ''bob''"
    "user.password_hash bob = ''hash-b''"
    by (simp_all add: example_db_def bob_def)
  from cur b show ?thesis by (simp add: login_when_logged_in)
qed

section \<open>Ownership\<close>

text \<open>Inserting, deleting and updating a row of one user leaves the rows of the others.\<close>

lemma others_insert:
  "user_id r = uid \<Longrightarrow>
   filter (\<lambda>x. user_id x \<noteq> uid) (rows @ [r]) = filter (\<lambda>x. user_id x \<noteq> uid) rows"
  by simp

lemma others_delete:
  assumes "distinct (map row.id rows)" "r \<in> set rows" "user_id r = uid"
  shows "filter (\<lambda>x. user_id x \<noteq> uid) (delete_row (row.id r) rows) =
         filter (\<lambda>x. user_id x \<noteq> uid) rows"
  using assms
proof (induction rows)
  case Nil
  then show ?case by simp
next
  case (Cons a rows)
  show ?case
  proof (cases "a = r")
    case True
    have "\<forall>x\<in>set rows. row.id x \<noteq> row.id r"
      using Cons.prems(1) True by (auto simp: image_iff)
    then have "filter (\<lambda>x. row.id x \<noteq> row.id r) rows = rows"
      by (simp add: filter_id_conv)
    with True Cons.prems(3) show ?thesis by (simp add: delete_row_def)
  next
    case False
    with Cons.prems have "r \<in> set rows" "row.id a \<noteq> row.id r"
      by (auto simp: image_iff)
    with Cons.IH Cons.prems show ?thesis by (simp add: delete_row_def)
  qed
qed

lemma delete_row_keys: "distinct (map row.id rows) \<Longrightarrow> distinct (map row.id (delete_row i rows))"
  by (simp add: delete_row_def distinct_map_filter)

lemma others_update:
  assumes "distinct (map row.id rows)" "r \<in> set rows" "user_id r = uid" "user_id r' = uid"
  shows "filter (\<lambda>x. user_id x \<noteq> uid) (map (\<lambda>x. if row.id x = row.id r then r' else x) rows) =
         filter (\<lambda>x. user_id x \<noteq> uid) rows"
  using assms
proof (induction rows)
  case Nil
  then show ?case by simp
next
  case (Cons a rows)
  show ?case
  proof (cases "a = r")
    case True
    have "\<forall>x\<in>set rows. row.id x \<noteq> row.id r"
      using Cons.prems(1) True by (auto simp: image_iff)
    then have "map (\<lambda>x. if row.id x = row.id r then r' else x) rows = rows"
      by (simp add: map_idI)
    with True Cons.prems(3,4) show ?thesis by simp
  next
    case False
    with Cons.prems have "r \<in> set rows" "row.id a \<noteq> row.id r"
      by (auto simp: image_iff)
    with Cons.IH Cons.prems show ?thesis by simp
  qed
qed

lemma update_keys:
  "row.id r' = row.id r \<Longrightarrow>
   map row.id (map (\<lambda>x. if row.id x = row.id r then r' else x) rows) = map row.id rows"
  by (induction rows) auto

lemma insert_keys:
  "distinct (map row.id rows) \<Longrightarrow> row.id r = next_id rows \<Longrightarrow>
   distinct (map row.id (rows @ [r]))"
  using next_id_not_used [of rows] by simp

text \<open>The two field-assignment blocks keep the id and the owner of the row.\<close>

lemma apply_goal_update_keys:
  "row.id (apply_goal_update data g) = row.id g"
  "user_id (apply_goal_update data g) = user_id g"
  by (simp_all add: apply_goal_update_def Let_def split: option.splits)

lemma apply_investment_update_keys:
  "row.id (apply_investment_update data i) = row.id i"
  "user_id (apply_investment_update data i) = user_id i"
  by (simp_all add: apply_investment_update_def Let_def split: option.splits)

text \<open>Budgets: the lookup-or-create step and the two loops built on it.\<close>

lemma set_budget_frame:
  assumes "distinct (map row.id rows)"
  shows "filter (\<lambda>x. user_id x \<noteq> uid) (set_budget uid c a rows) =
           filter (\<lambda>x. user_id x \<noteq> uid) rows \<and>
         distinct (map row.id (set_budget uid c a rows))"
proof (cases "List.find (\<lambda>b. budget.category b = c \<and> user_id b = uid) rows")
  case None
  then show ?thesis
    using assms insert_keys [OF assms, of "\<lparr>row.id = next_id rows, user_id = uid,
      budget.category = c, budget.amount = a\<rparr>"]
    by (simp add: set_budget_def)
next
  case (Some b)
  then have b: "b \<in> set rows" "user_id b = uid"
    by (auto simp: find_Some_iff)
  have upd: "map (\<lambda>r. if row.id r = row.id b then r\<lparr>budget.amount := a\<rparr> else r) rows =
             map (\<lambda>r. if row.id r = row.id b then b\<lparr>budget.amount := a\<rparr> else r) rows"
    using assms b(1) by (auto simp: distinct_map dest: inj_onD)
  have eq: "set_budget uid c a rows =
             map (\<lambda>r. if row.id r = row.id b then b\<lparr>budget.amount := a\<rparr> else r) rows"
    using Some upd by (simp add: set_budget_def)
  have frame: "filter (\<lambda>x. user_id x \<noteq> uid) (set_budget uid c a rows) =
        filter (\<lambda>x. user_id x \<noteq> uid) rows"
    unfolding eq using others_update [OF assms b, of "b\<lparr>budget.amount := a\<rparr>"] b(2) by simp
  have "map row.id (set_budget uid c a rows) = map row.id rows"
    unfolding eq by (rule update_keys) simp
  with assms have "distinct (map row.id (set_budget uid c a rows))" by simp
  with frame show ?thesis by simp
qed

lemma set_budget_form_loop_frame:
  "distinct (map row.id rows) \<Longrightarrow>
   filter (\<lambda>x. user_id x \<noteq> uid) (foldl (\<lambda>rows c. set_budget uid c (g c) rows) rows cs) =
     filter (\<lambda>x. user_id x \<noteq> uid) rows \<and>
   distinct (map row.id (foldl (\<lambda>rows c. set_budget uid c (g c) rows) rows cs))"
proof (induction cs arbitrary: rows)
  case Nil
  then show ?case by simp
next
  case (Cons c cs)
  from set_budget_frame [OF Cons.prems, of uid c "g c"] Cons.IH [of "set_budget uid c (g c) rows"]
  show ?case by simp
qed

lemma set_budget_data_loop_frame:
  "distinct (map row.id rows) \<Longrightarrow>
   filter (\<lambda>x. user_id x \<noteq> uid) (foldl (\<lambda>rows (c, a). set_budget uid c a rows) rows data) =
     filter (\<lambda>x. user_id x \<noteq> uid) rows \<and>
   distinct (map row.id (foldl (\<lambda>rows (c, a). set_budget uid c a rows) rows data))"
proof (induction data arbitrary: rows)
  case Nil
  then show ?case by simp
next
  case (Cons p data)
  obtain c a where p: "p = (c, a)" by (cases p)
  from set_budget_frame [OF Cons.prems, of uid c a] Cons.IH [of "set_budget uid c a rows"]
  show ?case by (simp add: p)
qed

lemma ensure_budgets_frame:
  "distinct (map row.id rows) \<Longrightarrow>
   filter (\<lambda>x. user_id x \<noteq> uid) (fst (ensure_budgets uid cs (rows, bd))) =
     filter (\<lambda>x. user_id x \<noteq> uid) rows \<and>
   distinct (map row.id (fst (ensure_budgets uid cs (rows, bd))))"
proof (induction cs arbitrary: rows bd)
  case Nil
  then show ?case by simp
next
  case (Cons c cs)
  let ?b = "\<lparr>row.id = next_id rows, user_id = uid, budget.category = c, budget.amount = 0\<rparr>"
  have "distinct (map row.id (rows @ [?b]))"
    using insert_keys [OF Cons.prems, of ?b] by simp
  from Cons.IH [OF this, of "dict_set bd c 0"] Cons.IH [OF Cons.prems, of bd]
  show ?case by simp
qed

text \<open>A change of one table that keeps the rows of the other users and the key constraint.\<close>

lemma frame_expenses:
  "primary_keys d \<Longrightarrow> distinct (map row.id rows) \<Longrightarrow>
   filter (\<lambda>x. user_id x \<noteq> uid) rows = filter (\<lambda>x. user_id x \<noteq> uid) (db.expenses d) \<Longrightarrow>
   foreign_rows uid (d\<lparr>db.expenses := rows\<rparr>) = foreign_rows uid d \<and>
   primary_keys (d\<lparr>db.expenses := rows\<rparr>)"
  by (simp add: foreign_rows_def primary_keys_def)

lemma frame_incomes:
  "primary_keys d \<Longrightarrow> distinct (map row.id rows) \<Longrightarrow>
   filter (\<lambda>x. user_id x \<noteq> uid) rows = filter (\<lambda>x. user_id x \<noteq> uid) (db.incomes d) \<Longrightarrow>
   foreign_rows uid (d\<lparr>db.incomes := rows\<rparr>) = foreign_rows uid d \<and>
   primary_keys (d\<lparr>db.incomes := rows\<rparr>)"
  by (simp add: foreign_rows_def primary_keys_def)

lemma frame_goals:
  "primary_keys d \<Longrightarrow> distinct (map row.id rows) \<Longrightarrow>
   filter (\<lambda>x. user_id x \<noteq> uid) rows = filter (\<lambda>x. user_id x \<noteq> uid) (db.goals d) \<Longrightarrow>
   foreign_rows uid (d\<lparr>db.goals := rows\<rparr>) = foreign_rows uid d \<and>
   primary_keys (d\<lparr>db.goals := rows\<rparr>)"
  by (simp add: foreign_rows_def primary_keys_def)

lemma frame_investments:
  "primary_keys d \<Longrightarrow> distinct (map row.id rows) \<Longrightarrow>
   filter (\<lambda>x. user_id x \<noteq> uid) rows = filter (\<lambda>x. user_id x \<noteq> uid) (db.investments d) \<Longrightarrow>
   foreign_rows uid (d\<lparr>db.investments := rows\<rparr>) = foreign_rows uid d \<and>
   primary_keys (d\<lparr>db.investments := rows\<rparr>)"
  by (simp add: foreign_rows_def primary_keys_def)

lemma frame_budgets:
  "primary_keys d \<Longrightarrow> distinct (map row.id rows) \<Longrightarrow>
   filter (\<lambda>x. user_id x \<noteq> uid) rows = filter (\<lambda>x. user_id x \<noteq> uid) (db.budgets d) \<Longrightarrow>
   foreign_rows uid (d\<lparr>db.budgets := rows\<rparr>) = foreign_rows uid d \<and>
   primary_keys (d\<lparr>db.budgets := rows\<rparr>)"
  by (simp add: foreign_rows_def primary_keys_def)

lemma pk_tables:
  assumes "primary_keys d"
  shows "distinct (map row.id (db.expenses d))" "distinct (map row.id (db.incomes d))"
    "distinct (map row.id (db.goals d))" "distinct (map row.id (db.investments d))"
    "distinct (map row.id (db.budgets d))"
  using assms by (simp_all add: primary_keys_def)

text \<open>The handlers, table by table.\<close>

lemma insert_expense_frame:
  assumes "primary_keys d"
  shows "foreign_rows (user.id u) (d\<lparr>db.expenses := db.expenses d @ [new_expense d u today f]\<rparr>)
           = foreign_rows (user.id u) d \<and>
         primary_keys (d\<lparr>db.expenses := db.expenses d @ [new_expense d u today f]\<rparr>)"
  using pk_tables(1) [OF assms] next_id_not_used [of "db.expenses d"]
  by (intro frame_expenses [OF assms]) (simp_all add: new_expense_def)

lemma insert_income_frame:
  assumes "primary_keys d"
  shows "foreign_rows (user.id u) (d\<lparr>db.incomes := db.incomes d @ [new_income d u today f]\<rparr>)
           = foreign_rows (user.id u) d \<and>
         primary_keys (d\<lparr>db.incomes := db.incomes d @ [new_income d u today f]\<rparr>)"
  using pk_tables(2) [OF assms] next_id_not_used [of "db.incomes d"]
  by (intro frame_incomes [OF assms]) (simp_all add: new_income_def)

lemma insert_goal_frame:
  assumes "primary_keys d"
  shows "foreign_rows (user.id u) (d\<lparr>db.goals := db.goals d @ [new_goal d u f]\<rparr>)
           = foreign_rows (user.id u) d \<and>
         primary_keys (d\<lparr>db.goals := db.goals d @ [new_goal d u f]\<rparr>)"
  using pk_tables(3) [OF assms] next_id_not_used [of "db.goals d"]
  by (intro frame_goals [OF assms]) (simp_all add: new_goal_def)

lemma insert_investment_frame:
  assumes "primary_keys d"
  shows "foreign_rows (user.id u)
           (d\<lparr>db.investments := db.investments d @ [new_investment d u f]\<rparr>)
           = foreign_rows (user.id u) d \<and>
         primary_keys (d\<lparr>db.investments := db.investments d @ [new_investment d u f]\<rparr>)"
  using pk_tables(4) [OF assms] next_id_not_used [of "db.investments d"]
  by (intro frame_investments [OF assms]) (simp_all add: new_investment_def)

lemma delete_expense_frame:
  assumes "primary_keys d"
  shows "foreign_rows (user.id u) (snd (delete_expense d u i)) = foreign_rows (user.id u) d \<and>
         primary_keys (snd (delete_expense d u i))"
proof (cases "first_by_id_user i (user.id u) (db.expenses d)")
  case None
  with assms show ?thesis by (simp add: delete_expense_def)
next
  case (Some r)
  note r = first_by_id_user_Some [OF Some]
  from frame_expenses [OF assms delete_row_keys [OF pk_tables(1) [OF assms]]
      others_delete [OF pk_tables(1) [OF assms]], of r "user.id u"] r Some
  show ?thesis by (simp add: delete_expense_def)
qed

lemma delete_income_frame:
  assumes "primary_keys d"
  shows "foreign_rows (user.id u) (snd (delete_income d u i)) = foreign_rows (user.id u) d \<and>
         primary_keys (snd (delete_income d u i))"
proof (cases "first_by_id_user i (user.id u) (db.incomes d)")
  case None
  with assms show ?thesis by (simp add: delete_income_def)
next
  case (Some r)
  note r = first_by_id_user_Some [OF Some]
  from frame_incomes [OF assms delete_row_keys [OF pk_tables(2) [OF assms]]
      others_delete [OF pk_tables(2) [OF assms]], of r "user.id u"] r Some
  show ?thesis by (simp add: delete_income_def)
qed

lemma delete_goal_frame:
  assumes "primary_keys d"
  shows "foreign_rows (user.id u) (snd (delete_goal d u i)) = foreign_rows (user.id u) d \<and>
         primary_keys (snd (delete_goal d u i))"
proof (cases "first_by_id_user i (user.id u) (db.goals d)")
  case None
  with assms show ?thesis by (simp add: delete_goal_def)
next
  case (Some r)
  note r = first_by_id_user_Some [OF Some]
  from frame_goals [OF assms delete_row_keys [OF pk_tables(3) [OF assms]]
      others_delete [OF pk_tables(3) [OF assms]], of r "user.id u"] r Some
  show ?thesis by (simp add: delete_goal_def)
qed

lemma delete_investment_frame:
  assumes "primary_keys d"
  shows "foreign_rows (user.id u) (snd (delete_investment d u i)) = foreign_rows (user.id u) d \<and>
         primary_keys (snd (delete_investment d u i))"
proof (cases "first_by_id_user i (user.id u) (db.investments d)")
  case None
  with assms show ?thesis by (simp add: delete_investment_def)
next
  case (Some r)
  note r = first_by_id_user_Some [OF Some]
  from frame_investments [OF assms delete_row_keys [OF pk_tables(4) [OF assms]]
      others_delete [OF pk_tables(4) [OF assms]], of r "user.id u"] r Some
  show ?thesis by (simp add: delete_investment_def)
qed

lemma update_goal_frame:
  assumes "primary_keys d"
  shows "foreign_rows (user.id u) (snd (update_goal d u i data)) = foreign_rows (user.id u) d \<and>
         primary_keys (snd (update_goal d u i data))"
proof (cases "first_by_id_user i (user.id u) (db.goals d)")
  case None
  with assms show ?thesis by (simp add: update_goal_def)
next
  case (Some r)
  note r = first_by_id_user_Some [OF Some]
  let ?r' = "apply_goal_update data r"
  let ?rows = "map (\<lambda>x. if row.id x = row.id r then ?r' else x) (db.goals d)"
  have "map row.id ?rows = map row.id (db.goals d)"
    by (rule update_keys) (simp add: apply_goal_update_keys)
  then have keys: "distinct (map row.id ?rows)"
    using pk_tables(3) [OF assms] by (simp only:)
  have others: "filter (\<lambda>x. user_id x \<noteq> user.id u) ?rows =
                filter (\<lambda>x. user_id x \<noteq> user.id u) (db.goals d)"
    using others_update [OF pk_tables(3) [OF assms], of r "user.id u" ?r'] r
    by (simp add: apply_goal_update_keys)
  from frame_goals [OF assms keys others] Some show ?thesis
    by (simp add: update_goal_def Let_def)
qed

lemma update_investment_frame:
  assumes "primary_keys d"
  shows "foreign_rows (user.id u) (snd (update_investment d u i data)) =
           foreign_rows (user.id u) d \<and>
         primary_keys (snd (update_investment d u i data))"
proof (cases "first_by_id_user i (user.id u) (db.investments d)")
  case None
  with assms show ?thesis by (simp add: update_investment_def)
next
  case (Some r)
  note r = first_by_id_user_Some [OF Some]
  let ?r' = "apply_investment_update data r"
  let ?rows = "map (\<lambda>x. if row.id x = row.id r then ?r' else x) (db.investments d)"
  have "map row.id ?rows = map row.id (db.investments d)"
    by (rule update_keys) (simp add: apply_investment_update_keys)
  then have keys: "distinct (map row.id ?rows)"
    using pk_tables(4) [OF assms] by (simp only:)
  have others: "filter (\<lambda>x. user_id x \<noteq> user.id u) ?rows =
                filter (\<lambda>x. user_id x \<noteq> user.id u) (db.investments d)"
    using others_update [OF pk_tables(4) [OF assms], of r "user.id u" ?r'] r
    by (simp add: apply_investment_update_keys)
  from frame_investments [OF assms keys others] Some show ?thesis
    by (simp add: update_investment_def Let_def)
qed

lemma update_budget_frame:
  assumes "primary_keys d"
  shows "foreign_rows (user.id u) (snd (update_budget d u data)) = foreign_rows (user.id u) d \<and>
         primary_keys (snd (update_budget d u data))"
proof -
  from set_budget_data_loop_frame [OF pk_tables(5) [OF assms], of "user.id u" data]
  have "distinct (map row.id
          (foldl (\<lambda>rows (c, a). set_budget (user.id u) c a rows) (db.budgets d) data))"
    "filter (\<lambda>x. user_id x \<noteq> user.id u)
       (foldl (\<lambda>rows (c, a). set_budget (user.id u) c a rows) (db.budgets d) data) =
     filter (\<lambda>x. user_id x \<noteq> user.id u) (db.budgets d)"
    by simp_all
  from frame_budgets [OF assms this] show ?thesis
    by (simp add: update_budget_def)
qed

lemma budget_planner_frame:
  assumes "primary_keys d"
  shows "foreign_rows (user.id u) (snd (budget_planner d u post)) = foreign_rows (user.id u) d \<and>
         primary_keys (snd (budget_planner d u post))"
proof -
  let ?uid = "user.id u"
  obtain pending bd where e:
    "ensure_budgets ?uid default_expense_categories
       (db.budgets d, budget_dict_of (filter_by_user ?uid (db.budgets d))) = (pending, bd)"
    by (cases "ensure_budgets ?uid default_expense_categories
       (db.budgets d, budget_dict_of (filter_by_user ?uid (db.budgets d)))")
  from ensure_budgets_frame [OF pk_tables(5) [OF assms], of ?uid default_expense_categories
      "budget_dict_of (filter_by_user ?uid (db.budgets d))"] e
  have pending: "filter (\<lambda>x. user_id x \<noteq> ?uid) pending =
                 filter (\<lambda>x. user_id x \<noteq> ?uid) (db.budgets d)"
    "distinct (map row.id pending)"
    by simp_all
  show ?thesis
  proof (cases post)
    case None
    have "foreign_rows ?uid
            (d\<lparr>db.budgets := if length bd \<noteq> length default_expense_categories
                               then pending else db.budgets d\<rparr>) = foreign_rows ?uid d \<and>
          primary_keys
            (d\<lparr>db.budgets := if length bd \<noteq> length default_expense_categories
                               then pending else db.budgets d\<rparr>)"
      by (rule frame_budgets [OF assms]) (simp_all add: pending pk_tables(5) [OF assms])
    with None e show ?thesis by (simp add: budget_planner_def Let_def)
  next
    case (Some form)
    let ?rows = "foldl (\<lambda>rows c. set_budget ?uid c
                   (case form (''budget_'' @ c) of None \<Rightarrow> 0 | Some a \<Rightarrow> a) rows)
                   pending default_expense_categories"
    from set_budget_form_loop_frame [OF pending(2), of ?uid
        "\<lambda>c. case form (''budget_'' @ c) of None \<Rightarrow> 0 | Some a \<Rightarrow> a" default_expense_categories]
    have "filter (\<lambda>x. user_id x \<noteq> ?uid) ?rows = filter (\<lambda>x. user_id x \<noteq> ?uid) (db.budgets d)"
      "distinct (map row.id ?rows)"
      by (simp_all add: pending(1))
    from frame_budgets [OF assms this(2) this(1)] Some e show ?thesis
      by (simp add: budget_planner_def Let_def)
  qed
qed

text \<open>Every route behind \<^verbatim>\<open>login_required\<close>.\<close>

lemma handle_frame:
  assumes "primary_keys d"
  shows "foreign_rows (user.id u) (snd (handle d u today r)) = foreign_rows (user.id u) d \<and>
         primary_keys (snd (handle d u today r))"
proof (cases r)
  case (Expense_tracker post)
  with assms insert_expense_frame [OF assms] show ?thesis
    by (cases post) (simp_all add: expense_tracker_def)
next
  case (Add_expense f)
  with insert_expense_frame [OF assms] show ?thesis by (simp add: add_expense_def Let_def)
next
  case (Delete_expense i)
  with delete_expense_frame [OF assms] show ?thesis by simp
next
  case (Income_tracker post)
  with assms insert_income_frame [OF assms] show ?thesis
    by (cases post) (simp_all add: income_tracker_def)
next
  case (Add_income f)
  with insert_income_frame [OF assms] show ?thesis by (simp add: add_income_def Let_def)
next
  case (Delete_income i)
  with delete_income_frame [OF assms] show ?thesis by simp
next
  case (Goal_tracker post)
  with assms insert_goal_frame [OF assms] show ?thesis
    by (cases post) (simp_all add: goal_tracker_def)
next
  case (Add_goal f)
  with insert_goal_frame [OF assms] show ?thesis by (simp add: add_goal_def Let_def)
next
  case (Update_goal i data)
  with update_goal_frame [OF assms] show ?thesis by simp
next
  case (Delete_goal i)
  with delete_goal_frame [OF assms] show ?thesis by simp
next
  case (Investment_tracker post)
  with assms insert_investment_frame [OF assms] show ?thesis
    by (cases post) (simp_all add: investment_tracker_def)
next
  case (Add_investment f)
  with insert_investment_frame [OF assms] show ?thesis by (simp add: add_investment_def Let_def)
next
  case (Update_investment i data)
  with update_investment_frame [OF assms] show ?thesis by simp
next
  case (Delete_investment i)
  with delete_investment_frame [OF assms] show ?thesis by simp
next
  case (Budget_planner post)
  with budget_planner_frame [OF assms] show ?thesis by simp
next
  case (Update_budget data)
  with update_budget_frame [OF assms] show ?thesis by simp
qed (use assms in \<open>simp_all add: get_expenses_def get_incomes_def get_goals_def
       get_investments_def get_budget_def\<close>)



section \<open>The schema constraints are invariants\<close>

text \<open>
  The uniqueness constraints assumed above hold of the empty database and are kept by
  registration and by every route behind \<^verbatim>\<open>login_required\<close>.
\<close>

lemma handle_keeps_users: "primary_keys d \<Longrightarrow> db.users (snd (handle d u today r)) = db.users d"
proof -
  assume "primary_keys d"
  from handle_frame [OF this, of u today r]
  have "db.users (foreign_rows (user.id u) (snd (handle d u today r))) =
        db.users (foreign_rows (user.id u) d)"
    by simp
  then show ?thesis by (simp add: foreign_rows_def)
qed

lemma handle_keeps_constraints:
  "primary_keys d \<Longrightarrow> unique_users d \<Longrightarrow>
   primary_keys (snd (handle d u today r)) \<and> unique_users (snd (handle d u today r))"
  using handle_frame [of d u today r] handle_keeps_users [of d u today r]
  by (simp add: unique_users_def)

lemma register_keeps_constraints:
  assumes "primary_keys d" "unique_users d"
  shows "primary_keys (snd (register generate_password_hash d s post)) \<and>
         unique_users (snd (register generate_password_hash d s post))"
proof (cases "current_user d s = None")
  case False
  with assms show ?thesis by (simp add: register_def)
next
  case anon: True
  show ?thesis
  proof (cases post)
    case None
    with assms show ?thesis by (simp add: register_def)
  next
    case (Some f)
    let ?taken = "(\<exists>u\<in>set (db.users d). user.username u = register_form.username f) \<or>
                  (\<exists>u\<in>set (db.users d). user.email u = register_form.email f)"
    show ?thesis
    proof (cases ?taken)
      case True
      with anon Some have "snd (register generate_password_hash d s post) = d"
        by (auto simp: register_def find_username_None find_email_None)
      with assms show ?thesis by simp
    next
      case False
      let ?new = "\<lparr>user.id = next_user_id (db.users d),
                   user.username = register_form.username f,
                   user.email = register_form.email f,
                   user.password_hash = generate_password_hash (register_form.password f)\<rparr>"
      from default_budgets_loop [of "user.id ?new" "db.budgets d" default_expense_categories]
      obtain nb where nb:
        "foldl (\<lambda>rows c. rows @ [\<lparr>row.id = next_id rows, user_id = user.id ?new,
                                   budget.category = c, budget.amount = 0\<rparr>])
           (db.budgets d) default_expense_categories = db.budgets d @ nb"
        "distinct (map row.id (db.budgets d)) \<longrightarrow> distinct (map row.id (db.budgets d @ nb))"
        by blast
      from False anon Some nb(1) have result:
        "snd (register generate_password_hash d s post) =
           d\<lparr>db.users := db.users d @ [?new], db.budgets := db.budgets d @ nb\<rparr>"
        by (simp add: register_def find_username_None find_email_None Let_def)
      from False have
        "user.username ?new \<notin> user.username ` set (db.users d)"
        "user.email ?new \<notin> user.email ` set (db.users d)"
        by auto
      with assms nb(2) next_user_id_not_used [of "db.users d"] have
        "primary_keys (d\<lparr>db.users := db.users d @ [?new], db.budgets := db.budgets d @ nb\<rparr>)"
        "unique_users (d\<lparr>db.users := db.users d @ [?new], db.budgets := db.budgets d @ nb\<rparr>)"
        by (simp_all add: primary_keys_def unique_users_def)
      with result show ?thesis by simp
    qed
  qed
qed

end
